theory Spec2Isabelle
  imports Main
begin

section \<open>Python values and effects\<close>

text \<open>
  The module \<^verbatim>\<open>golem/ethereum/node.py\<close> is Python 2. Its functions talk to the
  operating system (child processes), to a geth node (IPC queries) and to a remote HTTP
  service. Every answer of these collaborators is a field of an environment record, every
  raise of the source is a value of type \<open>exc\<close>, and every effect on the outside is an
  entry of the returned event list, in program order.
\<close>

datatype exc_class =
    OSError | RuntimeError | AttributeError | KeyError | TypeError | ValueError
  | OverflowError | UnicodeEncodeError | LibraryError string

datatype exc = Exc exc_class string

text \<open>
  JSON as \<^verbatim>\<open>response.json()\<close> returns it: a dict is an association list whose first
  binding of a key is the dict's entry. A text is a list of 8-bit characters: code points
  above 255 and floating-point numbers are left out of the model.
\<close>

datatype json =
    JNull | JBool bool | JInt int | JStr string | JList "json list"
  | JObj "(string \<times> json) list"

text \<open>
  A transaction of \<^verbatim>\<open>ethereum.transactions\<close>: the fields its constructor takes, in
  the constructor's order, and the key it has been signed with (none before
  \<^verbatim>\<open>sign()\<close>).
\<close>

record transaction =
  tx_nonce :: int
  tx_gasprice :: int
  tx_startgas :: int
  tx_to :: string
  tx_value :: int
  tx_data :: string
  tx_signed_with :: "string option"

text \<open>
  The events: a child spawned with its arguments and pid, \<^verbatim>\<open>communicate()\<close>,
  \<^verbatim>\<open>wait()\<close> and \<^verbatim>\<open>terminate()\<close> on a child, the registration of the exit hook, an
  HTTP GET of a URL, a log record (level, format string, the values formatted), and the
  two calls on the Ethereum client of the local faucet.
\<close>

datatype event =
    EvPopen "string list" nat
  | EvCommunicate nat
  | EvWait nat
  | EvTerminate nat
  | EvAtexit
  | EvHttpGet string
  | EvLog string string "json list"
  | EvGetTransactionCount string
  | EvSend transaction

subsection \<open>Text helpers\<close>

definition is_digit :: "char \<Rightarrow> bool" where
  "is_digit c = (48 \<le> (of_char c :: nat) \<and> (of_char c :: nat) \<le> 57)"

definition digit_char :: "nat \<Rightarrow> char" where
  "digit_char d = ''0123456789'' ! d"

text \<open>\<^verbatim>\<open>str(n)\<close> for a non-negative integer.\<close>

fun string_of_nat :: "nat \<Rightarrow> string" where
  "string_of_nat n =
     (if n < 10 then [digit_char n]
      else string_of_nat (n div 10) @ [digit_char (n mod 10)])"

declare string_of_nat.simps [simp del]

text \<open>\<^verbatim>\<open>str(i)\<close> for an integer.\<close>

definition string_of_int :: "int \<Rightarrow> string" where
  "string_of_int i = (if i < 0 then CHR ''-'' # string_of_nat (nat (- i)) else string_of_nat (nat i))"

text \<open>\<^verbatim>\<open>int(s)\<close> on a string of decimal digits.\<close>

definition nat_of_digits :: "string \<Rightarrow> nat" where
  "nat_of_digits s = foldl (\<lambda>n c. 10 * n + ((of_char c :: nat) - 48)) 0 s"

text \<open>The longest prefix of digits, and the rest: what a greedy \<^verbatim>\<open>\d+\<close> consumes.\<close>

definition span_digits :: "string \<Rightarrow> string \<times> string" where
  "span_digits s = (takeWhile is_digit s, dropWhile is_digit s)"

text \<open>\<^verbatim>\<open>sep.join(xs)\<close>.\<close>

fun str_join :: "string \<Rightarrow> string list \<Rightarrow> string" where
  "str_join sep [] = []"
| "str_join sep [x] = x"
| "str_join sep (x # y # ys) = x @ sep @ str_join sep (y # ys)"

text \<open>\<^verbatim>\<open>posixpath.join(a, *p)\<close>.\<close>

definition path_join2 :: "string \<Rightarrow> string \<Rightarrow> string" where
  "path_join2 path b =
     (if b \<noteq> [] \<and> hd b = CHR ''/'' then b
      else if path = [] \<or> last path = CHR ''/'' then path @ b
      else path @ ''/'' @ b)"

definition path_join :: "string \<Rightarrow> string list \<Rightarrow> string" where
  "path_join a p = foldl path_join2 a p"

definition is_ascii :: "string \<Rightarrow> bool" where
  "is_ascii s = list_all (\<lambda>c. (of_char c :: nat) < 128) s"

text \<open>
  \<^verbatim>\<open>"...{}".format(v)\<close> with a byte-string template: a \<^verbatim>\<open>unicode\<close> argument is
  encoded as ASCII, which raises on any other character; every other value formats.
\<close>

definition py_format_error :: "json \<Rightarrow> exc option" where
  "py_format_error v =
     (case v of
        JStr s \<Rightarrow>
          if is_ascii s then None
          else Some (Exc UnicodeEncodeError ''ascii codec cannot encode character'')
      | _ \<Rightarrow> None)"

section \<open>The version gate\<close>

text \<open>
  \<^verbatim>\<open>re.search("Version: (\d+\.\d+\.\d+)", output)\<close>: the leftmost position where the
  pattern matches; the result is group 1. A digit is never a dot, so each \<^verbatim>\<open>\d+\<close>
  takes the longest run of digits and no backtracking changes the outcome.
\<close>

definition match_version :: "string \<Rightarrow> string option" where
  "match_version s =
     (if take 9 s \<noteq> ''Version: '' then None
      else let (a, r1) = span_digits (drop 9 s) in
        if a = [] then None
        else (case r1 of
            [] \<Rightarrow> None
          | c1 # r2 \<Rightarrow>
              if c1 \<noteq> CHR ''.'' then None
              else let (b, r3) = span_digits r2 in
                if b = [] then None
                else (case r3 of
                    [] \<Rightarrow> None
                  | c2 # r4 \<Rightarrow>
                      if c2 \<noteq> CHR ''.'' then None
                      else let (c, r5) = span_digits r4 in
                        if c = [] then None else Some (a @ ''.'' @ b @ ''.'' @ c))))"

fun re_search_version :: "string \<Rightarrow> string option" where
  "re_search_version [] = match_version []"
| "re_search_version (x # xs) =
     (case match_version (x # xs) of
        Some g \<Rightarrow> Some g
      | None \<Rightarrow> re_search_version xs)"

text \<open>
  \<^verbatim>\<open>distutils.version.StrictVersion\<close>: the parse by
  \<^verbatim>\<open>^(\d+)\.(\d+)(\.(\d+))?([ab](\d+))?$\<close>, the comparison of Python 2's
  \<^verbatim>\<open>__cmp__\<close> (a string operand is parsed first), and \<^verbatim>\<open>__str__\<close>.
\<close>

record strict_version =
  sv_version :: "nat \<times> nat \<times> nat"
  sv_prerelease :: "(char \<times> nat) option"

definition invalid_version :: "string \<Rightarrow> exc" where
  "invalid_version s = Exc ValueError (''invalid version number '' @ [CHR 0x27] @ s @ [CHR 0x27])"

text \<open>The end of the pattern: \<^verbatim>\<open>$\<close> also matches before a final newline.\<close>

definition at_end :: "string \<Rightarrow> bool" where
  "at_end r = (r = [] \<or> r = [CHR 0x0A])"

definition parse_prerelease :: "string \<Rightarrow> (char \<times> nat) option option" where
  "parse_prerelease r =
     (if at_end r then Some None
      else (case r of
          [] \<Rightarrow> None
        | x # r1 \<Rightarrow>
            if x = CHR ''a'' \<or> x = CHR ''b'' then
              (let (d, r2) = span_digits r1 in
                 if d \<noteq> [] \<and> at_end r2 then Some (Some (x, nat_of_digits d)) else None)
            else None))"

definition StrictVersion :: "string \<Rightarrow> exc + strict_version" where
  "StrictVersion s =
     (let (a, r1) = span_digits s in
        if a = [] then Inl (invalid_version s)
        else (case r1 of
            [] \<Rightarrow> Inl (invalid_version s)
          | c1 # r2 \<Rightarrow>
              if c1 \<noteq> CHR ''.'' then Inl (invalid_version s)
              else let (b, r3) = span_digits r2;
                       (patch, r4) =
                         (case r3 of
                            [] \<Rightarrow> (0, r3)
                          | c2 # r5 \<Rightarrow>
                              if c2 = CHR ''.'' \<and> fst (span_digits r5) \<noteq> []
                              then (nat_of_digits (fst (span_digits r5)), snd (span_digits r5))
                              else (0, r3))
                   in if b = [] then Inl (invalid_version s)
                      else (case parse_prerelease r4 of
                          None \<Rightarrow> Inl (invalid_version s)
                        | Some pre \<Rightarrow>
                            Inr \<lparr>sv_version = (nat_of_digits a, nat_of_digits b, patch),
                                 sv_prerelease = pre\<rparr>)))"

text \<open>Python 2's \<^verbatim>\<open>cmp\<close> on tuples of integers: \<open>-1\<close>, \<open>0\<close> or \<open>1\<close>.\<close>

definition cmp_nat :: "nat \<Rightarrow> nat \<Rightarrow> int" where
  "cmp_nat x y = (if x < y then - 1 else if x = y then 0 else 1)"

definition cmp_triple :: "nat \<times> nat \<times> nat \<Rightarrow> nat \<times> nat \<times> nat \<Rightarrow> int" where
  "cmp_triple x y =
     (case (x, y) of ((a, b, c), (a', b', c')) \<Rightarrow>
        if cmp_nat a a' \<noteq> 0 then cmp_nat a a'
        else if cmp_nat b b' \<noteq> 0 then cmp_nat b b'
        else cmp_nat c c')"

definition cmp_prerelease :: "char \<times> nat \<Rightarrow> char \<times> nat \<Rightarrow> int" where
  "cmp_prerelease x y =
     (case (x, y) of ((k, n), (k', n')) \<Rightarrow>
        if cmp_nat (of_char k) (of_char k') \<noteq> 0 then cmp_nat (of_char k) (of_char k')
        else cmp_nat n n')"

definition version_cmp :: "strict_version \<Rightarrow> strict_version \<Rightarrow> int" where
  "version_cmp self other =
     (let compare = cmp_triple (sv_version self) (sv_version other) in
        if compare = 0 then
          (case (sv_prerelease self, sv_prerelease other) of
             (None, None) \<Rightarrow> 0
           | (Some _, None) \<Rightarrow> - 1
           | (None, Some _) \<Rightarrow> 1
           | (Some p, Some q) \<Rightarrow> cmp_prerelease p q)
        else compare)"

definition version_cmp_str :: "strict_version \<Rightarrow> string \<Rightarrow> exc + int" where
  "version_cmp_str self other =
     (case StrictVersion other of
        Inl e \<Rightarrow> Inl e
      | Inr v \<Rightarrow> Inr (version_cmp self v))"

definition version_str :: "strict_version \<Rightarrow> string" where
  "version_str v =
     (case sv_version v of (a, b, c) \<Rightarrow>
        (if c = 0 then str_join ''.'' [string_of_nat a, string_of_nat b]
         else str_join ''.'' [string_of_nat a, string_of_nat b, string_of_nat c])
        @ (case sv_prerelease v of
             None \<Rightarrow> []
           | Some (k, n) \<Rightarrow> k # string_of_nat n))"

section \<open>NodeProcess\<close>

text \<open>
  The operating system and the node, as \<^verbatim>\<open>NodeProcess\<close> sees them during one call.
  \<open>popen\<close> is \<^verbatim>\<open>subprocess.Popen(args)\<close> and gives the child's pid,
  \<open>communicate\<close> the child's standard output, \<open>wait_child\<close> its return code,
  \<open>is_connected ipc k\<close> the answer of the \<open>k\<close>-th \<^verbatim>\<open>web3.isConnected()\<close> poll,
  \<open>get_block_hash ipc n\<close> is \<^verbatim>\<open>web3.eth.getBlock(n)['hash']\<close>, and
  \<open>this_dir\<close> is \<^verbatim>\<open>path.dirname(__file__)\<close>.
\<close>

record node_env =
  find_program :: "string \<Rightarrow> string option"
  popen :: "string list \<Rightarrow> exc + nat"
  communicate :: "nat \<Rightarrow> exc + string"
  wait_child :: "nat \<Rightarrow> exc + int"
  terminate_child :: "nat \<Rightarrow> exc option"
  is_connected :: "string \<Rightarrow> nat \<Rightarrow> bool"
  get_block_hash :: "string \<Rightarrow> nat \<Rightarrow> exc + string"
  this_dir :: string

text \<open>
  The object: \<open>ps\<close> is \<^verbatim>\<open>self.__ps\<close> (the child's pid, or \<^verbatim>\<open>None\<close>), \<open>web3\<close> the
  IPC path of \<^verbatim>\<open>self.web3\<close>, absent until \<^verbatim>\<open>start()\<close> sets it.
\<close>

record node_process =
  datadir :: string
  prog :: string
  ps :: "nat option"
  web3 :: "string option"

definition MIN_GETH_VERSION :: string where
  "MIN_GETH_VERSION = ''1.6.1''"

definition MAX_GETH_VERSION :: string where
  "MAX_GETH_VERSION = ''1.6.999''"

definition BOOT_NODES :: "string list" where
  "BOOT_NODES = [''enode://a24ac7c5484ef4ed0c5eb2d36620ba4e4aa13b8c84684e1b4aab0cebea2ae45cb4d375b77eab56516d34bfbd3c1a833fc51296ff084b770b94fb9028c4d25ccf@52.169.42.101:30303?discport=30304'']"

definition not_found_error :: exc where
  "not_found_error = Exc OSError ''Ethereum client 'geth' not found''"

definition incompatible_error :: "strict_version \<Rightarrow> exc" where
  "incompatible_error ver =
     Exc OSError (''Incompatible Ethereum client 'geth' version: '' @ version_str ver)"

definition no_group_error :: exc where
  "no_group_error = Exc AttributeError (CHR 0x27 # ''NoneType' object has no attribute 'group'' @ [CHR 0x27])"

text \<open>
  \<^verbatim>\<open>NodeProcess.__init__\<close>. The data directory and the paths of the class are byte
  strings, so formatting them does not raise. The log records of the class are not part of
  its traces; the one log call whose formatting can raise, in \<^verbatim>\<open>identify_chain\<close>, is
  modelled by its exception.
\<close>

definition check_version :: "strict_version \<Rightarrow> exc option" where
  "check_version ver =
     (case version_cmp_str ver MIN_GETH_VERSION of
        Inl e \<Rightarrow> Some e
      | Inr lo \<Rightarrow>
          if lo < 0 then Some (incompatible_error ver)
          else (case version_cmp_str ver MAX_GETH_VERSION of
              Inl e \<Rightarrow> Some e
            | Inr hi \<Rightarrow> if hi > 0 then Some (incompatible_error ver) else None))"

definition NodeProcess_init :: "node_env \<Rightarrow> string \<Rightarrow> (exc + node_process) \<times> event list" where
  "NodeProcess_init env dd =
     (case find_program env ''geth'' of
        None \<Rightarrow> (Inl not_found_error, [])
      | Some pr \<Rightarrow>
          if pr = [] then (Inl not_found_error, [])
          else (case popen env [pr, ''version''] of
              Inl e \<Rightarrow> (Inl e, [])
            | Inr p \<Rightarrow>
                (case communicate env p of
                   Inl e \<Rightarrow> (Inl e, [EvPopen [pr, ''version''] p, EvCommunicate p])
                 | Inr output \<Rightarrow>
                     (case re_search_version output of
                        None \<Rightarrow> (Inl no_group_error, [EvPopen [pr, ''version''] p, EvCommunicate p])
                      | Some g \<Rightarrow>
                          (case StrictVersion g of
                             Inl e \<Rightarrow> (Inl e, [EvPopen [pr, ''version''] p, EvCommunicate p])
                           | Inr ver \<Rightarrow>
                               (case check_version ver of
                                  Some e \<Rightarrow> (Inl e, [EvPopen [pr, ''version''] p, EvCommunicate p])
                                | None \<Rightarrow>
                                    (Inr \<lparr>datadir = dd, prog = pr, ps = None, web3 = None\<rparr>,
                                     [EvPopen [pr, ''version''] p, EvCommunicate p])))))))"

definition is_running :: "node_process \<Rightarrow> bool" where
  "is_running self = (ps self \<noteq> None)"

subsection \<open>Chain identification\<close>

definition GENESES :: "(string \<times> string) list" where
  "GENESES =
     [(''0xd4e56740f876aef8c010b86a40d5f56745a118d0906a34e69aec8c0db1cb8fa3'', ''mainnet''),
      (''0x41941023680923e0fe4d74a34bdac8141f2540e3ae90623718e47d66d1ca4a2d'', ''ropsten''),
      (''0x6341fd3daf94b748c72ced5a5b26028f2474f5f00d824504e4fa37a75767e177'', ''rinkeby'')]"

definition no_web3_error :: exc where
  "no_web3_error =
     Exc AttributeError (CHR 0x27 # ''NodeProcess' object has no attribute 'web3'' @ [CHR 0x27])"

text \<open>\<^verbatim>\<open>GENESES.get(genesis, 'unknown')\<close>: a dict lookup, by equality of the key.\<close>

definition geneses_get :: "string \<Rightarrow> string" where
  "geneses_get genesis = (case map_of GENESES genesis of Some c \<Rightarrow> c | None \<Rightarrow> ''unknown'')"

text \<open>
  \<^verbatim>\<open>NodeProcess.identify_chain\<close>. The hash that web3 gives is a \<^verbatim>\<open>unicode\<close> text,
  and \<^verbatim>\<open>log.info("{} chain ({})".format(chain, genesis))\<close> formats it before the
  method returns.
\<close>

definition identify_chain :: "node_env \<Rightarrow> node_process \<Rightarrow> exc + string" where
  "identify_chain env self =
     (case web3 self of
        None \<Rightarrow> Inl no_web3_error
      | Some ipc \<Rightarrow>
          (case get_block_hash env ipc 0 of
             Inl e \<Rightarrow> Inl e
           | Inr genesis \<Rightarrow>
               (case py_format_error (JStr genesis) of
                  Some e \<Rightarrow> Inl e
                | None \<Rightarrow> Inr (geneses_get genesis))))"

subsection \<open>start\<close>

text \<open>
  The readiness loop \<^verbatim>\<open>while not self.web3.isConnected(): time.sleep(WAIT_PERIOD)\<close>
  has no bound in the source. Its model gives the number of the first poll that answers
  true, and \<open>None\<close> when no poll ever does (the call does not return).
\<close>

partial_function (option) wait_connected :: "(nat \<Rightarrow> bool) \<Rightarrow> nat \<Rightarrow> nat option" where
  "wait_connected answer k = (if answer k then Some k else wait_connected answer (Suc k))"

declare wait_connected.simps [code]

definition chain_name :: string where
  "chain_name = ''rinkeby''"

definition geth_datadir :: "node_process \<Rightarrow> string" where
  "geth_datadir self = path_join (datadir self) [''ethereum'', chain_name]"

definition datadir_arg :: "node_process \<Rightarrow> string" where
  "datadir_arg self = ''--datadir='' @ geth_datadir self"

definition init_file :: "node_env \<Rightarrow> string" where
  "init_file env = path_join (this_dir env) [chain_name @ ''.json'']"

definition init_args :: "node_env \<Rightarrow> node_process \<Rightarrow> string list" where
  "init_args env self = [prog self, datadir_arg self, ''init'', init_file env]"

definition node_args :: "node_process \<Rightarrow> string list" where
  "node_args self =
     [prog self, datadir_arg self, ''--cache=32'', ''--syncmode=light'', ''--networkid=4'',
      ''--bootnodes'', str_join '','' BOOT_NODES, ''--verbosity'', ''3'']"

definition ipc_path :: "node_process \<Rightarrow> string" where
  "ipc_path self = path_join (geth_datadir self) [''geth.ipc'']"

definition already_started_error :: exc where
  "already_started_error = Exc RuntimeError ''Ethereum node already started by us''"

definition init_failed_error :: "int \<Rightarrow> exc" where
  "init_failed_error rc = Exc OSError (''geth init failed with code '' @ string_of_int rc)"

definition wrong_chain_error :: "string \<Rightarrow> exc" where
  "wrong_chain_error c = Exc OSError (''Wrong ''  @ [CHR 0x27] @ c @ [CHR 0x27] @ '' Ethereum chain'')"

text \<open>
  What follows the spawn of the node in \<^verbatim>\<open>start()\<close>: the exit hook, the web3 object,
  the readiness loop and the check of the chain. \<open>self\<close> already holds the child.
\<close>

definition start_spawned ::
  "node_env \<Rightarrow> node_process \<Rightarrow> event list \<Rightarrow> (exc option \<times> node_process \<times> event list) option" where
  "start_spawned env self tr =
     (let self' = self\<lparr>web3 := Some (ipc_path self)\<rparr> in
        case wait_connected (is_connected env (ipc_path self)) 0 of
          None \<Rightarrow> None
        | Some k \<Rightarrow>
            (case identify_chain env self' of
               Inl e \<Rightarrow> Some (Some e, self', tr @ [EvAtexit])
             | Inr identified_chain \<Rightarrow>
                 if identified_chain \<noteq> chain_name
                 then Some (Some (wrong_chain_error identified_chain), self', tr @ [EvAtexit])
                 else Some (None, self', tr @ [EvAtexit])))"

text \<open>
  \<^verbatim>\<open>NodeProcess.start\<close>. The result is \<open>None\<close> when the call does not return, and
  otherwise the exception raised (if any), the object as the call leaves it, and the events.
\<close>

definition start ::
  "node_env \<Rightarrow> node_process \<Rightarrow> (exc option \<times> node_process \<times> event list) option" where
  "start env self =
     (if ps self \<noteq> None then Some (Some already_started_error, self, [])
      else (case popen env (init_args env self) of
          Inl e \<Rightarrow> Some (Some e, self, [])
        | Inr ip \<Rightarrow>
            (case wait_child env ip of
               Inl e \<Rightarrow> Some (Some e, self, [EvPopen (init_args env self) ip, EvWait ip])
             | Inr returncode \<Rightarrow>
                 if returncode \<noteq> 0
                 then Some (Some (init_failed_error returncode), self,
                            [EvPopen (init_args env self) ip, EvWait ip])
                 else (case popen env (node_args self) of
                     Inl e \<Rightarrow> Some (Some e, self, [EvPopen (init_args env self) ip, EvWait ip])
                   | Inr p \<Rightarrow>
                       start_spawned env (self\<lparr>ps := Some p\<rparr>)
                         [EvPopen (init_args env self) ip, EvWait ip,
                          EvPopen (node_args self) p]))))"

subsection \<open>stop\<close>

text \<open>
  The handler of \<^verbatim>\<open>stop()\<close> is \<^verbatim>\<open>except subprocess.NoSuchProcess:\<close>. Python evaluates
  the expression of an \<^verbatim>\<open>except\<close> clause when an exception reaches it, as an attribute
  lookup in the module \<^verbatim>\<open>subprocess\<close> of the standard library. The exception classes
  that module defines in Python 2.7 are listed here; \<^verbatim>\<open>NoSuchProcess\<close> is a class of
  \<^verbatim>\<open>psutil\<close>, not of \<^verbatim>\<open>subprocess\<close>.
\<close>

definition subprocess_exceptions :: "string list" where
  "subprocess_exceptions = [''CalledProcessError'']"

definition subprocess_getattr :: "string \<Rightarrow> exc + exc_class" where
  "subprocess_getattr name =
     (if name \<in> set subprocess_exceptions then Inr (LibraryError name)
      else Inl (Exc AttributeError
        (CHR 0x27 # ''module' object has no attribute '' @ [CHR 0x27] @ name @ [CHR 0x27])))"

definition exc_class_of :: "exc \<Rightarrow> exc_class" where
  "exc_class_of e = (case e of Exc c _ \<Rightarrow> c)"

text \<open>
  An exception \<open>e\<close> raised in the \<^verbatim>\<open>try\<close> block: \<open>None\<close> when the handler catches it
  (the block after the \<^verbatim>\<open>try\<close> statement then runs), the exception that leaves
  \<^verbatim>\<open>stop()\<close> otherwise.
\<close>

definition stop_handler :: "exc \<Rightarrow> exc option" where
  "stop_handler e =
     (case subprocess_getattr ''NoSuchProcess'' of
        Inl lookup_error \<Rightarrow> Some lookup_error
      | Inr cls \<Rightarrow> if exc_class_of e = cls then None else Some e)"

text \<open>\<^verbatim>\<open>NodeProcess.stop\<close>: the exception raised (if any), the object, the events.\<close>

definition stop :: "node_env \<Rightarrow> node_process \<Rightarrow> exc option \<times> node_process \<times> event list" where
  "stop env self =
     (case ps self of
        None \<Rightarrow> (None, self, [])
      | Some p \<Rightarrow>
          (case terminate_child env p of
             Some e \<Rightarrow>
               (case stop_handler e of
                  Some e' \<Rightarrow> (Some e', self, [EvTerminate p])
                | None \<Rightarrow> (None, self\<lparr>ps := None\<rparr>, [EvTerminate p]))
           | None \<Rightarrow>
               (case wait_child env p of
                  Inl e \<Rightarrow>
                    (case stop_handler e of
                       Some e' \<Rightarrow> (Some e', self, [EvTerminate p, EvWait p])
                     | None \<Rightarrow> (None, self\<lparr>ps := None\<rparr>, [EvTerminate p, EvWait p]))
                | Inr _ \<Rightarrow> (None, self\<lparr>ps := None\<rparr>, [EvTerminate p, EvWait p]))))"

subsection \<open>Reading a trace\<close>

text \<open>
  The children a trace leaves behind: spawned by \<^verbatim>\<open>Popen\<close> and not reaped since by
  \<^verbatim>\<open>communicate()\<close> or \<^verbatim>\<open>wait()\<close>.
\<close>

definition live_step :: "nat list \<Rightarrow> event \<Rightarrow> nat list" where
  "live_step live ev =
     (case ev of
        EvPopen _ p \<Rightarrow> live @ [p]
      | EvCommunicate p \<Rightarrow> removeAll p live
      | EvWait p \<Rightarrow> removeAll p live
      | _ \<Rightarrow> live)"

definition live_children :: "event list \<Rightarrow> nat list" where
  "live_children tr = foldl live_step [] tr"

text \<open>Whether a trace holds the spawn of the long-running node of \<^verbatim>\<open>start()\<close>.\<close>

definition is_node_spawn :: "node_process \<Rightarrow> event \<Rightarrow> bool" where
  "is_node_spawn self ev = (case ev of EvPopen args _ \<Rightarrow> args = node_args self | _ \<Rightarrow> False)"

definition spawned_node :: "node_process \<Rightarrow> event list \<Rightarrow> bool" where
  "spawned_node self tr = list_ex (is_node_spawn self) tr"

definition terminated_child :: "event list \<Rightarrow> bool" where
  "terminated_child tr = list_ex (\<lambda>ev. case ev of EvTerminate _ \<Rightarrow> True | _ \<Rightarrow> False) tr"

subsection \<open>The accepted range\<close>

text \<open>Python's \<^verbatim>\<open>a <= b\<close> on \<^verbatim>\<open>StrictVersion\<close> objects, through \<^verbatim>\<open>__cmp__\<close>.\<close>

definition version_le :: "strict_version \<Rightarrow> strict_version \<Rightarrow> bool" where
  "version_le a b = (version_cmp a b \<le> 0)"

definition min_version :: strict_version where
  "min_version = \<lparr>sv_version = (1, 6, 1), sv_prerelease = None\<rparr>"

definition max_version :: strict_version where
  "max_version = \<lparr>sv_version = (1, 6, 999), sv_prerelease = None\<rparr>"

subsection \<open>The lookup of the chain, as the specification words it\<close>

text \<open>
  The specification describes the lookup in the table of genesis hashes as a
  ``case/format-normalized hex comparison'': two spellings of a hash are the same when
  they agree up to the case of the hex digits and the \<^verbatim>\<open>0x\<close> prefix. This second
  definition follows those words; \<open>geneses_get\<close> above follows the source.
\<close>

definition hex_lower :: "char \<Rightarrow> char" where
  "hex_lower c = (case map_of (zip ''ABCDEFX'' ''abcdefx'') c of Some d \<Rightarrow> d | None \<Rightarrow> c)"

definition normalize_hex :: "string \<Rightarrow> string" where
  "normalize_hex h = (let l = map hex_lower h in if take 2 l = ''0x'' then drop 2 l else l)"

definition spec_geneses_get :: "string \<Rightarrow> string" where
  "spec_geneses_get genesis =
     (case filter (\<lambda>(k, c). normalize_hex k = normalize_hex genesis) GENESES of
        [] \<Rightarrow> ''unknown''
      | (k, c) # _ \<Rightarrow> c)"

subsection \<open>A concrete node\<close>

text \<open>
  An environment in which geth 1.6.2 is installed, every child exits with code 0, the
  node answers from the third poll on and is on the rinkeby chain; and a supervisor for it.
\<close>

definition rinkeby_hash :: string where
  "rinkeby_hash = ''0x6341fd3daf94b748c72ced5a5b26028f2474f5f00d824504e4fa37a75767e177''"

definition ropsten_hash :: string where
  "ropsten_hash = ''0x41941023680923e0fe4d74a34bdac8141f2540e3ae90623718e47d66d1ca4a2d''"

definition demo_env :: node_env where
  "demo_env =
     \<lparr>find_program = (\<lambda>name. if name = ''geth'' then Some ''/usr/bin/geth'' else None),
      popen = (\<lambda>args. Inr (length args)),
      communicate = (\<lambda>p. Inr (''Geth'' @ [CHR 0x0A] @ ''Version: 1.6.2-stable'' @ [CHR 0x0A])),
      wait_child = (\<lambda>p. Inr 0),
      terminate_child = (\<lambda>p. None),
      is_connected = (\<lambda>ipc k. 2 \<le> k),
      get_block_hash = (\<lambda>ipc n. Inr rinkeby_hash),
      this_dir = ''/opt/golem/ethereum''\<rparr>"

definition demo_node :: node_process where
  "demo_node = \<lparr>datadir = ''/tmp/d'', prog = ''/usr/bin/geth'', ps = None, web3 = None\<rparr>"

definition demo_running :: node_process where
  "demo_running = demo_node\<lparr>ps := Some 9, web3 := Some ''/tmp/d/ethereum/rinkeby/geth.ipc''\<rparr>"

text \<open>The same environment with geth 1.7.0 installed.\<close>

definition old_geth_env :: node_env where
  "old_geth_env = demo_env\<lparr>communicate := (\<lambda>p. Inr ''Version: 1.7.0'')\<rparr>"

text \<open>The node on the ropsten chain, a failing chain initialisation, and a child that is
  gone when \<^verbatim>\<open>stop()\<close> asks it to terminate.\<close>

definition ropsten_env :: node_env where
  "ropsten_env = demo_env\<lparr>get_block_hash := (\<lambda>ipc n. Inr ropsten_hash)\<rparr>"

definition init_fails_env :: node_env where
  "init_fails_env = demo_env\<lparr>wait_child := (\<lambda>p. Inr 1)\<rparr>"

definition gone_env :: node_env where
  "gone_env = demo_env\<lparr>terminate_child := (\<lambda>p. Some (Exc OSError ''[Errno 3] No such process''))\<rparr>"

text \<open>The rinkeby genesis hash with its hex digits in upper case.\<close>

definition rinkeby_hash_upper :: string where
  "rinkeby_hash_upper = ''0x6341FD3DAF94B748C72CED5A5B26028F2474F5F00D824504E4FA37A75767E177''"

definition upper_env :: node_env where
  "upper_env = demo_env\<lparr>get_block_hash := (\<lambda>ipc n. Inr rinkeby_hash_upper)\<rparr>"

text \<open>A node whose answer for the hash is a text with a character that is not ASCII.\<close>

definition accent_env :: node_env where
  "accent_env = demo_env\<lparr>get_block_hash := (\<lambda>ipc n. Inr [CHR 0xE9])\<rparr>"

section \<open>The faucets\<close>

subsection \<open>Hex text, as the codec \<^verbatim>\<open>'hex'\<close> of Python 2\<close>

definition hex_digit :: "nat \<Rightarrow> char" where
  "hex_digit d = ''0123456789abcdef'' ! d"

definition hex_of_byte :: "char \<Rightarrow> string" where
  "hex_of_byte c = [hex_digit ((of_char c :: nat) div 16), hex_digit ((of_char c :: nat) mod 16)]"

text \<open>\<^verbatim>\<open>s.encode('hex')\<close>: two lower-case digits for each byte.\<close>

definition encode_hex :: "string \<Rightarrow> string" where
  "encode_hex s = concat (map hex_of_byte s)"

definition hex_value :: "char \<Rightarrow> nat option" where
  "hex_value c =
     (let n = (of_char c :: nat) in
        if 48 \<le> n \<and> n \<le> 57 then Some (n - 48)
        else if 97 \<le> n \<and> n \<le> 102 then Some (n - 87)
        else if 65 \<le> n \<and> n \<le> 70 then Some (n - 55)
        else None)"

fun decode_pairs :: "string \<Rightarrow> exc + string" where
  "decode_pairs (a # b # r) =
     (case (hex_value a, hex_value b) of
        (Some x, Some y) \<Rightarrow>
          (case decode_pairs r of
             Inl e \<Rightarrow> Inl e
           | Inr bs \<Rightarrow> Inr (char_of (16 * x + y) # bs))
      | _ \<Rightarrow> Inl (Exc TypeError ''Non-hexadecimal digit found''))"
| "decode_pairs _ = Inr []"

text \<open>\<^verbatim>\<open>s.decode('hex')\<close>: the length is checked first, then the digits.\<close>

definition decode_hex :: "string \<Rightarrow> exc + string" where
  "decode_hex s =
     (if odd (length s) then Inl (Exc TypeError ''Odd-length string'') else decode_pairs s)"

subsection \<open>Python operations on the JSON of the remote faucet\<close>

text \<open>\<^verbatim>\<open>obj[key]\<close> with a text key: only a dict has one.\<close>

definition type_name :: "json \<Rightarrow> string" where
  "type_name v =
     (case v of
        JNull \<Rightarrow> ''NoneType'' | JBool _ \<Rightarrow> ''bool'' | JInt _ \<Rightarrow> ''int''
      | JStr _ \<Rightarrow> ''unicode'' | JList _ \<Rightarrow> ''list'' | JObj _ \<Rightarrow> ''dict'')"

definition py_getitem :: "json \<Rightarrow> string \<Rightarrow> exc + json" where
  "py_getitem obj key =
     (case obj of
        JObj kvs \<Rightarrow>
          (case map_of kvs key of
             Some v \<Rightarrow> Inr v
           | None \<Rightarrow> Inl (Exc KeyError key))
      | JList _ \<Rightarrow> Inl (Exc TypeError ''list indices must be integers, not str'')
      | JStr _ \<Rightarrow> Inl (Exc TypeError ''string indices must be integers'')
      | _ \<Rightarrow>
          Inl (Exc TypeError
            (CHR 0x27 # type_name obj @ [CHR 0x27] @ '' object has no attribute '__getitem__'' @ [CHR 0x27])))"

text \<open>\<^verbatim>\<open>v == 0\<close>: true of the integer 0 and of \<^verbatim>\<open>False\<close>, false of every other value.\<close>

definition py_eq_zero :: "json \<Rightarrow> bool" where
  "py_eq_zero v = (case v of JInt n \<Rightarrow> n = 0 | JBool b \<Rightarrow> \<not> b | _ \<Rightarrow> False)"

text \<open>
  The collaborators of the faucets. \<open>normalize_address\<close> and \<open>privtoaddr\<close> are the
  functions of \<^verbatim>\<open>ethereum.utils\<close> and \<^verbatim>\<open>ethereum.keys\<close>; \<open>http_get\<close> is
  \<^verbatim>\<open>requests.get\<close>; \<open>timestamp_ok n\<close> says whether \<^verbatim>\<open>datetime.fromtimestamp(n)\<close>
  accepts \<open>n\<close> on this platform; \<open>int_of_text\<close> is \<^verbatim>\<open>int(s)\<close> on a text;
  \<open>tx_init\<close> and \<open>tx_sign\<close> give the exception that the constructor of
  \<^verbatim>\<open>Transaction\<close> and its method \<^verbatim>\<open>sign\<close> raise, if any.
\<close>

record http_response =
  status_code :: int
  json_body :: "exc + json"

record faucet_env =
  normalize_address :: "string \<Rightarrow> exc + string"
  privtoaddr :: "string \<Rightarrow> string"
  http_get :: "string \<Rightarrow> exc + http_response"
  timestamp_ok :: "int \<Rightarrow> bool"
  int_of_text :: "string \<Rightarrow> int option"
  tx_init :: "transaction \<Rightarrow> exc option"
  tx_sign :: "transaction \<Rightarrow> string \<Rightarrow> exc option"

text \<open>\<^verbatim>\<open>datetime.fromtimestamp(v)\<close>: the timestamp it reads, or its exception.\<close>

definition fromtimestamp :: "faucet_env \<Rightarrow> json \<Rightarrow> exc + int" where
  "fromtimestamp env v =
     (case v of
        JInt n \<Rightarrow>
          if timestamp_ok env n then Inr n else Inl (Exc ValueError ''timestamp out of range'')
      | JBool b \<Rightarrow>
          if timestamp_ok env (if b then 1 else 0) then Inr (if b then 1 else 0)
          else Inl (Exc ValueError ''timestamp out of range'')
      | _ \<Rightarrow> Inl (Exc TypeError ''a float is required''))"

text \<open>\<^verbatim>\<open>int(v)\<close>.\<close>

definition py_int :: "faucet_env \<Rightarrow> json \<Rightarrow> exc + int" where
  "py_int env v =
     (case v of
        JInt n \<Rightarrow> Inr n
      | JBool b \<Rightarrow> Inr (if b then 1 else 0)
      | JStr s \<Rightarrow>
          (case int_of_text env s of
             Some n \<Rightarrow> Inr n
           | None \<Rightarrow> Inl (Exc ValueError ''invalid literal for int() with base 10''))
      | _ \<Rightarrow>
          Inl (Exc TypeError
            (''int() argument must be a string or a number, not '' @ [CHR 0x27] @ type_name v
             @ [CHR 0x27])))"

text \<open>
  \<^verbatim>\<open>denoms.ether\<close>, and the true division \<^verbatim>\<open>n / denoms.ether\<close> of the module
  (\<^verbatim>\<open>from __future__ import division\<close>): the quotient of two integers is the nearest
  double, and the division raises \<^verbatim>\<open>OverflowError\<close> when that is beyond the largest
  one, that is, from \<open>2^1024 - 2^970\<close> on in absolute value.
\<close>

definition ether :: int where
  "ether = 10 ^ 18"

definition true_div_overflows :: "int \<Rightarrow> int \<Rightarrow> bool" where
  "true_div_overflows n d = (\<bar>n\<bar> \<ge> (2 ^ 1024 - 2 ^ 970) * \<bar>d\<bar>)"

definition overflow_error :: exc where
  "overflow_error = Exc OverflowError ''integer division result too large for a float''"

subsection \<open>The remote faucet\<close>

definition URL_TEMPLATE :: string where
  "URL_TEMPLATE = ''http://188.165.227.180:4000/donate/''"

text \<open>
  The part of \<^verbatim>\<open>ropsten_faucet_donate\<close> after the test of the status code: the answer
  for the parsed body, and the log record of that answer.
\<close>

definition faucet_answer :: "faucet_env \<Rightarrow> json \<Rightarrow> (exc + bool) \<times> event list" where
  "faucet_answer env response =
     (case py_getitem response ''paydate'' of
        Inl e \<Rightarrow> (Inl e, [])
      | Inr paydate \<Rightarrow>
          if py_eq_zero paydate then
            (case py_getitem response ''message'' of
               Inl e \<Rightarrow> (Inl e, [])
             | Inr message \<Rightarrow>
                 (case py_format_error message of
                    Some e \<Rightarrow> (Inl e, [])
                  | None \<Rightarrow>
                      (Inr False, [EvLog ''warning'' ''Ropsten Faucet warning {}'' [message]])))
          else
            (case fromtimestamp env paydate of
               Inl e \<Rightarrow> (Inl e, [])
             | Inr ts \<Rightarrow>
                 (case py_getitem response ''amount'' of
                    Inl e \<Rightarrow> (Inl e, [])
                  | Inr amount \<Rightarrow>
                      (case py_int env amount of
                         Inl e \<Rightarrow> (Inl e, [])
                       | Inr n \<Rightarrow>
                           if true_div_overflows n ether then (Inl overflow_error, [])
                           else (Inr True,
                                 [EvLog ''info'' ''Faucet: {:.6f} ETH on {}'' [JInt n, JInt ts]])))))"

text \<open>\<^verbatim>\<open>ropsten_faucet_donate\<close>: the value returned or the exception raised, and the events.\<close>

definition ropsten_faucet_donate :: "faucet_env \<Rightarrow> string \<Rightarrow> (exc + bool) \<times> event list" where
  "ropsten_faucet_donate env addr =
     (case normalize_address env addr of
        Inl e \<Rightarrow> (Inl e, [])
      | Inr a \<Rightarrow>
          (case http_get env (URL_TEMPLATE @ encode_hex a) of
             Inl e \<Rightarrow> (Inl e, [EvHttpGet (URL_TEMPLATE @ encode_hex a)])
           | Inr response \<Rightarrow>
               if status_code response \<noteq> 200
               then (Inr False,
                     [EvHttpGet (URL_TEMPLATE @ encode_hex a),
                      EvLog ''error'' ''Ropsten Faucet error code {}'' [JInt (status_code response)]])
               else (case json_body response of
                   Inl e \<Rightarrow> (Inl e, [EvHttpGet (URL_TEMPLATE @ encode_hex a)])
                 | Inr body \<Rightarrow>
                     (fst (faucet_answer env body),
                      EvHttpGet (URL_TEMPLATE @ encode_hex a) # snd (faucet_answer env body)))))"

subsection \<open>The local faucet\<close>

text \<open>
  The Ethereum client that \<^verbatim>\<open>Faucet.gimme_money\<close> is given: its two methods.
\<close>

record eth_node =
  get_transaction_count :: "string \<Rightarrow> exc + int"
  send :: "transaction \<Rightarrow> exc + string"

text \<open>\<^verbatim>\<open>"{:32}".format("Golem Faucet")\<close>: the text, padded with spaces to 32 characters.\<close>

definition PRIVKEY :: string where
  "PRIVKEY = ''Golem Faucet'' @ replicate (32 - length ''Golem Faucet'') CHR '' ''"

definition ADDR :: "faucet_env \<Rightarrow> string" where
  "ADDR env = privtoaddr env PRIVKEY"

definition gimme_money ::
  "faucet_env \<Rightarrow> eth_node \<Rightarrow> string \<Rightarrow> int \<Rightarrow> (exc + string) \<times> event list" where
  "gimme_money env ethnode addr v =
     (let query = EvGetTransactionCount (''0x'' @ encode_hex (ADDR env)) in
      case get_transaction_count ethnode (''0x'' @ encode_hex (ADDR env)) of
        Inl e \<Rightarrow> (Inl e, [query])
      | Inr nonce \<Rightarrow>
          (case normalize_address env addr of
             Inl e \<Rightarrow> (Inl e, [query])
           | Inr a \<Rightarrow>
               (let tx = \<lparr>tx_nonce = nonce, tx_gasprice = 1, tx_startgas = 21000, tx_to = a,
                           tx_value = v, tx_data = [], tx_signed_with = None\<rparr>
                in case tx_init env tx of
                     Some e \<Rightarrow> (Inl e, [query])
                   | None \<Rightarrow>
                       (case tx_sign env tx PRIVKEY of
                          Some e \<Rightarrow> (Inl e, [query])
                        | None \<Rightarrow>
                            (let signed = tx\<lparr>tx_signed_with := Some PRIVKEY\<rparr>
                             in case send ethnode signed of
                                  Inl e \<Rightarrow> (Inl e, [query, EvSend signed])
                                | Inr h \<Rightarrow>
                                    if true_div_overflows v ether
                                    then (Inl overflow_error, [query, EvSend signed])
                                    else (case py_format_error (JStr h) of
                                        Some e \<Rightarrow> (Inl e, [query, EvSend signed])
                                      | None \<Rightarrow>
                                          (case decode_hex (drop 2 h) of
                                             Inl e \<Rightarrow>
                                               (Inl e,
                                                [query, EvSend signed,
                                                 EvLog ''info'' ''Faucet --({} ETH)--> {} ({})''
                                                   [JInt v, JStr (''0x'' @ encode_hex a), JStr h]])
                                           | Inr bs \<Rightarrow>
                                               (Inr bs,
                                                [query, EvSend signed,
                                                 EvLog ''info'' ''Faucet --({} ETH)--> {} ({})''
                                                   [JInt v, JStr (''0x'' @ encode_hex a), JStr h]]))))))))"
subsection \<open>Concrete faucet calls\<close>

text \<open>
  An address of 20 bytes; a library that accepts addresses of 20 bytes as they are and
  timestamps of the years 1 to 9999; and the answers of the remote faucet: status 500, a
  decline with a message, a payment (the values of the module's tests), and then a decline
  without a message, a decline whose message is not ASCII, a payment dated beyond the year
  9999, a payment whose amount is \<^verbatim>\<open>null\<close>, and a payment whose amount is beyond
  the floats.
\<close>

definition demo_addr :: string where
  "demo_addr = replicate 20 CHR ''A''"

definition http_env :: "http_response \<Rightarrow> faucet_env" where
  "http_env response =
     \<lparr>normalize_address = (\<lambda>x. if length x = 20 then Inr x
         else Inl (Exc (LibraryError ''Exception'') ''Invalid address format'')),
      privtoaddr = (\<lambda>k. take 20 k),
      http_get = (\<lambda>url. Inr response),
      timestamp_ok = (\<lambda>n. - 62135596800 \<le> n \<and> n \<le> 253402300799),
      int_of_text = (\<lambda>s. None),
      tx_init = (\<lambda>tx. None),
      tx_sign = (\<lambda>tx k. None)\<rparr>"

definition error_response :: http_response where
  "error_response = \<lparr>status_code = 500, json_body = Inl (Exc ValueError ''No JSON object could be decoded'')\<rparr>"

definition decline_response :: http_response where
  "decline_response =
     \<lparr>status_code = 200, json_body = Inr (JObj [(''paydate'', JInt 0), (''message'', JStr ''Ooops!'')])\<rparr>"

definition paid_response :: http_response where
  "paid_response =
     \<lparr>status_code = 200,
      json_body = Inr (JObj [(''paydate'', JInt 1486605259), (''amount'', JInt 999999999999999)])\<rparr>"

definition bare_decline_response :: http_response where
  "bare_decline_response = \<lparr>status_code = 200, json_body = Inr (JObj [(''paydate'', JInt 0)])\<rparr>"

definition null_amount_response :: http_response where
  "null_amount_response =
     \<lparr>status_code = 200,
      json_body = Inr (JObj [(''paydate'', JInt 1486605259), (''amount'', JNull)])\<rparr>"

definition unicode_decline_response :: http_response where
  "unicode_decline_response =
     \<lparr>status_code = 200,
      json_body = Inr (JObj [(''paydate'', JInt 0), (''message'', JStr [CHR 0xE9])])\<rparr>"

definition late_paydate_response :: http_response where
  "late_paydate_response =
     \<lparr>status_code = 200,
      json_body = Inr (JObj [(''paydate'', JInt (10 ^ 18)), (''amount'', JInt 999999999999999)])\<rparr>"

definition huge_amount_response :: http_response where
  "huge_amount_response =
     \<lparr>status_code = 200,
      json_body = Inr (JObj [(''paydate'', JInt 1486605259), (''amount'', JInt (10 ^ 400))])\<rparr>"

text \<open>An Ethereum client with transaction count 7 that answers every submission with one hash.\<close>

definition demo_hash :: string where
  "demo_hash = [CHR 0x00, CHR 0xAB, CHR 0x7F, CHR 0xFF]"

definition demo_client :: eth_node where
  "demo_client =
     \<lparr>get_transaction_count = (\<lambda>a. Inr 7),
      send = (\<lambda>tx. Inr ''0x00ab7fff'')\<rparr>"

text \<open>Whether an event is an outbound HTTP request.\<close>

definition is_http_get :: "event \<Rightarrow> bool" where
  "is_http_get ev = (case ev of EvHttpGet _ \<Rightarrow> True | _ \<Rightarrow> False)"

section \<open>Properties\<close>

subsection \<open>Parsing the version\<close>

lemma not_digit_dot [simp]: "\<not> is_digit CHR ''.''"
  by (simp add: is_digit_def)

lemma span_digits_run:
  assumes "\<forall>x \<in> set a. is_digit x" and "r = [] \<or> \<not> is_digit (hd r)"
  shows "span_digits (a @ r) = (a, r)"
proof -
  from assms(2) have "takeWhile is_digit r = []" "dropWhile is_digit r = r"
    by (cases r; simp)+
  with assms(1) show ?thesis
    by (simp add: span_digits_def takeWhile_append2 dropWhile_append2)
qed

lemma span_digits_shape:
  assumes "span_digits s = (a, r)"
  shows "s = a @ r" and "\<forall>x \<in> set a. is_digit x" and "r = [] \<or> \<not> is_digit (hd r)"
  using assms
  by (auto simp add: span_digits_def dest: set_takeWhileD hd_dropWhile)

lemma match_version_shape:
  assumes "match_version s = Some g"
  shows "\<exists>a b c. g = a @ ''.'' @ b @ ''.'' @ c \<and> a \<noteq> [] \<and> b \<noteq> [] \<and> c \<noteq> []
           \<and> (\<forall>x \<in> set a. is_digit x) \<and> (\<forall>x \<in> set b. is_digit x) \<and> (\<forall>x \<in> set c. is_digit x)"
proof -
  from assms obtain a r2 b r4 c r5 where
    a: "span_digits (drop 9 s) = (a, CHR ''.'' # r2)" "a \<noteq> []" and
    b: "span_digits r2 = (b, CHR ''.'' # r4)" "b \<noteq> []" and
    c: "span_digits r4 = (c, r5)" "c \<noteq> []" and
    g: "g = a @ ''.'' @ b @ ''.'' @ c"
    by (auto simp add: match_version_def Let_def split: if_splits prod.splits list.splits)
  from span_digits_shape(2) [OF a(1)] span_digits_shape(2) [OF b(1)] span_digits_shape(2) [OF c(1)]
    a(2) b(2) c(2) g
  show ?thesis by blast
qed

lemma re_search_version_shape:
  assumes "re_search_version s = Some g"
  shows "\<exists>a b c. g = a @ ''.'' @ b @ ''.'' @ c \<and> a \<noteq> [] \<and> b \<noteq> [] \<and> c \<noteq> []
           \<and> (\<forall>x \<in> set a. is_digit x) \<and> (\<forall>x \<in> set b. is_digit x) \<and> (\<forall>x \<in> set c. is_digit x)"
  using assms
proof (induction s)
  case Nil
  then show ?case by (simp add: match_version_def)
next
  case (Cons x xs)
  show ?case
  proof (cases "match_version (x # xs)")
    case None
    with Cons show ?thesis by simp
  next
    case (Some g')
    with Cons.prems have "g' = g" by simp
    with Some match_version_shape show ?thesis by blast
  qed
qed

lemma StrictVersion_digits:
  assumes "a \<noteq> []" "b \<noteq> []" "c \<noteq> []"
    and "\<forall>x \<in> set a. is_digit x" "\<forall>x \<in> set b. is_digit x" "\<forall>x \<in> set c. is_digit x"
  shows "StrictVersion (a @ ''.'' @ b @ ''.'' @ c) =
    Inr \<lparr>sv_version = (nat_of_digits a, nat_of_digits b, nat_of_digits c), sv_prerelease = None\<rparr>"
proof -
  have 1: "span_digits (a @ ''.'' @ b @ ''.'' @ c) = (a, ''.'' @ b @ ''.'' @ c)"
    using assms(4) by (intro span_digits_run) simp_all
  have 2: "span_digits (b @ ''.'' @ c) = (b, ''.'' @ c)"
    using assms(5) by (intro span_digits_run) simp_all
  have 3: "span_digits c = (c, [])"
    using span_digits_run [of c "[]"] assms(6) by simp
  from 1 2 3 assms(1-3) show ?thesis
    by (simp add: StrictVersion_def parse_prerelease_def at_end_def)
qed

text \<open>Whatever the pattern of \<^verbatim>\<open>__init__\<close> extracts, \<^verbatim>\<open>StrictVersion\<close> accepts.\<close>

lemma re_search_version_parses:
  assumes "re_search_version s = Some g"
  shows "\<exists>a b c. StrictVersion g = Inr \<lparr>sv_version = (a, b, c), sv_prerelease = None\<rparr>"
  using re_search_version_shape [OF assms] StrictVersion_digits by blast

lemma StrictVersion_MIN: "StrictVersion MIN_GETH_VERSION = Inr min_version"
  by (simp add: StrictVersion_def MIN_GETH_VERSION_def span_digits_def is_digit_def
      parse_prerelease_def at_end_def nat_of_digits_def min_version_def)

lemma StrictVersion_MAX: "StrictVersion MAX_GETH_VERSION = Inr max_version"
  by (simp add: StrictVersion_def MAX_GETH_VERSION_def span_digits_def is_digit_def
      parse_prerelease_def at_end_def nat_of_digits_def max_version_def)

subsection \<open>The readiness loop and the steps of start\<close>

lemma wait_connected_returns:
  "answer (k + n) \<Longrightarrow> \<exists>m. wait_connected answer k = Some m \<and> answer m"
proof (induction n arbitrary: k)
  case 0
  then show ?case by (subst wait_connected.simps) simp
next
  case (Suc n)
  from Suc.prems have "answer (Suc k + n)" by simp
  from Suc.IH [OF this] obtain m where m: "wait_connected answer (Suc k) = Some m" "answer m"
    by blast
  show ?case
  proof (cases "answer k")
    case True
    then show ?thesis by (subst wait_connected.simps) simp
  next
    case False
    with m show ?thesis by (subst wait_connected.simps) simp
  qed
qed

text \<open>The chain that \<^verbatim>\<open>identify_chain\<close> gives for a hash of ASCII characters.\<close>

lemma identify_chain_ascii:
  assumes "web3 self = Some ipc" and "get_block_hash env ipc 0 = Inr h" and "is_ascii h"
  shows "identify_chain env self = Inr (geneses_get h)"
  using assms by (simp add: identify_chain_def py_format_error_def)

lemma start_spawned_cases:
  assumes "is_connected env (ipc_path self) k"
  shows "start_spawned env self tr =
    Some (case identify_chain env (self\<lparr>web3 := Some (ipc_path self)\<rparr>) of
            Inl e \<Rightarrow> Some e
          | Inr c \<Rightarrow> if c \<noteq> chain_name then Some (wrong_chain_error c) else None,
          self\<lparr>web3 := Some (ipc_path self)\<rparr>, tr @ [EvAtexit])"
proof -
  from assms have "is_connected env (ipc_path self) (0 + k)" by simp
  from wait_connected_returns [of "is_connected env (ipc_path self)" 0 k, OF this]
  obtain m where "wait_connected (is_connected env (ipc_path self)) 0 = Some m" by blast
  then show ?thesis
    by (simp add: start_spawned_def Let_def split: sum.splits)
qed

lemma path_unchanged [simp]:
  "ipc_path (self\<lparr>ps := x\<rparr>) = ipc_path self"
  "node_args (self\<lparr>ps := x\<rparr>) = node_args self"
  "init_args env (self\<lparr>ps := x\<rparr>) = init_args env self"
  by (simp_all add: ipc_path_def node_args_def init_args_def geth_datadir_def datadir_arg_def)

lemma start_not_running:
  assumes "ps self = None"
    and "popen env (init_args env self) = Inr ip"
    and "wait_child env ip = Inr 0"
    and "popen env (node_args self) = Inr p"
    and "is_connected env (ipc_path self) k"
  shows "start env self =
    Some (case identify_chain env (self\<lparr>ps := Some p, web3 := Some (ipc_path self)\<rparr>) of
            Inl e \<Rightarrow> Some e
          | Inr c \<Rightarrow> if c \<noteq> chain_name then Some (wrong_chain_error c) else None,
          self\<lparr>ps := Some p, web3 := Some (ipc_path self)\<rparr>,
          [EvPopen (init_args env self) ip, EvWait ip, EvPopen (node_args self) p, EvAtexit])"
proof -
  from assms(5) have "is_connected env (ipc_path (self\<lparr>ps := Some p\<rparr>)) k" by simp
  from start_spawned_cases [OF this] assms(1-4) show ?thesis
    by (simp add: start_def)
qed

lemma start_identified:
  assumes "ps self = None"
    and "popen env (init_args env self) = Inr ip"
    and "wait_child env ip = Inr 0"
    and "popen env (node_args self) = Inr p"
    and "is_connected env (ipc_path self) k"
    and "get_block_hash env (ipc_path self) 0 = Inr h"
    and "is_ascii h"
  shows "start env self =
    Some (if geneses_get h \<noteq> chain_name then Some (wrong_chain_error (geneses_get h)) else None,
          self\<lparr>ps := Some p, web3 := Some (ipc_path self)\<rparr>,
          [EvPopen (init_args env self) ip, EvWait ip, EvPopen (node_args self) p, EvAtexit])"
proof -
  have "identify_chain env (self\<lparr>ps := Some p, web3 := Some (ipc_path self)\<rparr>)
      = Inr (geneses_get h)"
    using assms(6,7) by (intro identify_chain_ascii [where ipc = "ipc_path self"]) simp_all
  with start_not_running [OF assms(1-5)] show ?thesis by simp
qed

lemma geneses_get_rinkeby:
  assumes "geneses_get h = ''rinkeby''"
  shows "is_ascii h"
proof -
  from assms have "h = ''0x6341fd3daf94b748c72ced5a5b26028f2474f5f00d824504e4fa37a75767e177''"
    by (simp add: geneses_get_def GENESES_def split: if_splits)
  then show ?thesis by (simp add: is_ascii_def)
qed

subsection \<open>The version gate at construction\<close>

lemma check_version_range:
  "check_version ver =
     (if version_le min_version ver \<and> version_le ver max_version then None
      else Some (incompatible_error ver))" if "sv_prerelease ver = None"
proof -
  obtain a b c where v: "sv_version ver = (a, b, c)" by (cases "sv_version ver") auto
  have lo: "version_cmp ver min_version < 0 \<longleftrightarrow> \<not> version_le min_version ver"
    using that v
    by (auto simp add: version_le_def version_cmp_def min_version_def cmp_triple_def cmp_nat_def Let_def)
  show ?thesis
    using lo
    by (simp add: check_version_def version_cmp_str_def StrictVersion_MIN StrictVersion_MAX
        version_le_def)
qed

lemma version_range_patch:
  assumes "sv_prerelease ver = None"
  shows "version_le min_version ver \<and> version_le ver max_version
     \<longleftrightarrow> (\<exists>c. sv_version ver = (1, 6, c) \<and> 1 \<le> c \<and> c \<le> 999)"
proof -
  obtain a b c where v: "sv_version ver = (a, b, c)" by (cases "sv_version ver") auto
  with assms show ?thesis
    by (auto simp add: version_le_def version_cmp_def min_version_def max_version_def
        cmp_triple_def cmp_nat_def Let_def split: if_splits)
qed

text \<open>
  Claim C1. When the binary is found and its version output matches the pattern of
  \<^verbatim>\<open>__init__\<close>, the extracted text always parses as a version \<open>ver\<close>, and
  construction is decided by the closed range alone: it succeeds, with no child attached,
  when \<open>MIN_GETH_VERSION \<le> ver \<le> MAX_GETH_VERSION\<close> (that is, for 1.6.1 up to 1.6.999,
  both ends included), and otherwise raises \<^verbatim>\<open>OSError\<close> (the error the specification
  calls ConfigurationError) whose message ends in \<^verbatim>\<open>str(ver)\<close>. In both cases the
  only child spawned is the version query, reaped by \<^verbatim>\<open>communicate()\<close> before the
  constructor returns: no long-running process exists.
\<close>

theorem version_gate_inclusive:
  assumes "find_program env ''geth'' = Some pr" and "pr \<noteq> []"
    and "popen env [pr, ''version''] = Inr p"
    and "communicate env p = Inr output"
    and "re_search_version output = Some g"
  shows "\<exists>ver. StrictVersion g = Inr ver \<and>
    NodeProcess_init env dd =
      (if version_le min_version ver \<and> version_le ver max_version
       then Inr \<lparr>datadir = dd, prog = pr, ps = None, web3 = None\<rparr>
       else Inl (Exc OSError (''Incompatible Ethereum client 'geth' version: '' @ version_str ver)),
       [EvPopen [pr, ''version''] p, EvCommunicate p])
    \<and> live_children (snd (NodeProcess_init env dd)) = []
    \<and> ((version_le min_version ver \<and> version_le ver max_version)
         = (\<exists>c. sv_version ver = (1, 6, c) \<and> 1 \<le> c \<and> c \<le> 999))"
proof -
  from re_search_version_parses [OF assms(5)] obtain a b c where
    ver: "StrictVersion g = Inr \<lparr>sv_version = (a, b, c), sv_prerelease = None\<rparr>" by blast
  let ?ver = "\<lparr>sv_version = (a, b, c), sv_prerelease = None\<rparr>"
  have pre: "sv_prerelease ?ver = None" by simp
  have res: "NodeProcess_init env dd =
      (if version_le min_version ?ver \<and> version_le ?ver max_version
       then Inr \<lparr>datadir = dd, prog = pr, ps = None, web3 = None\<rparr>
       else Inl (Exc OSError (''Incompatible Ethereum client 'geth' version: '' @ version_str ?ver)),
       [EvPopen [pr, ''version''] p, EvCommunicate p])"
    using assms ver
    by (simp add: NodeProcess_init_def check_version_range [OF pre] incompatible_error_def)
  have "live_children [EvPopen [pr, ''version''] p, EvCommunicate p] = []"
    by (simp add: live_children_def live_step_def)
  with res ver version_range_patch [OF pre] show ?thesis by auto
qed

theorem version_gate_inclusive_witness:
  "NodeProcess_init demo_env ''/tmp/d'' =
     (Inr demo_node, [EvPopen [''/usr/bin/geth'', ''version''] 2, EvCommunicate 2])
   \<and> NodeProcess_init old_geth_env ''/tmp/d'' =
     (Inl (Exc OSError ''Incompatible Ethereum client 'geth' version: 1.7''),
      [EvPopen [''/usr/bin/geth'', ''version''] 2, EvCommunicate 2])"
proof -
  have f: "find_program demo_env ''geth'' = Some ''/usr/bin/geth''"
    "find_program old_geth_env ''geth'' = Some ''/usr/bin/geth''"
    and n: "''/usr/bin/geth'' \<noteq> []"
    and p: "popen demo_env [''/usr/bin/geth'', ''version''] = Inr 2"
    "popen old_geth_env [''/usr/bin/geth'', ''version''] = Inr 2"
    and c1: "communicate demo_env 2 = Inr (''Geth'' @ [CHR 0x0A] @ ''Version: 1.6.2-stable'' @ [CHR 0x0A])"
    and c2: "communicate old_geth_env 2 = Inr ''Version: 1.7.0''"
    by (simp_all add: demo_env_def old_geth_env_def)
  have g1: "re_search_version (''Geth'' @ [CHR 0x0A] @ ''Version: 1.6.2-stable'' @ [CHR 0x0A]) = Some ''1.6.2''"
    by code_simp
  have g2: "re_search_version ''Version: 1.7.0'' = Some ''1.7.0''"
    by code_simp
  have v1: "StrictVersion ''1.6.2'' = Inr \<lparr>sv_version = (1, 6, 2), sv_prerelease = None\<rparr>"
    by code_simp
  have v2: "StrictVersion ''1.7.0'' = Inr \<lparr>sv_version = (1, 7, 0), sv_prerelease = None\<rparr>"
    by code_simp
  have s2: "version_str \<lparr>sv_version = (1, 7, 0), sv_prerelease = None\<rparr> = ''1.7''"
    by code_simp
  have r1: "version_le min_version \<lparr>sv_version = (1, 6, 2), sv_prerelease = None\<rparr>
      \<and> version_le \<lparr>sv_version = (1, 6, 2), sv_prerelease = None\<rparr> max_version"
    by code_simp
  have r2: "\<not> version_le \<lparr>sv_version = (1, 7, 0), sv_prerelease = None\<rparr> max_version"
    by code_simp
  from version_gate_inclusive [OF f(1) n p(1) c1 g1, of "''/tmp/d''"] v1 r1
  have a: "NodeProcess_init demo_env ''/tmp/d'' =
     (Inr demo_node, [EvPopen [''/usr/bin/geth'', ''version''] 2, EvCommunicate 2])"
    by (auto simp add: demo_node_def)
  from version_gate_inclusive [OF f(2) n p(2) c2 g2, of "''/tmp/d''"] v2 r2 s2
  have b: "NodeProcess_init old_geth_env ''/tmp/d'' =
     (Inl (Exc OSError ''Incompatible Ethereum client 'geth' version: 1.7''),
      [EvPopen [''/usr/bin/geth'', ''version''] 2, EvCommunicate 2])"
    by auto
  from a b show ?thesis by simp
qed

subsection \<open>The concrete node\<close>

lemma demo_args:
  "init_args demo_env demo_node =
     [''/usr/bin/geth'', ''--datadir=/tmp/d/ethereum/rinkeby'', ''init'',
      ''/opt/golem/ethereum/rinkeby.json'']"
  "ipc_path demo_node = ''/tmp/d/ethereum/rinkeby/geth.ipc''"
  "length (node_args demo_node) = 9"
  by (simp_all add: init_args_def node_args_def ipc_path_def geth_datadir_def datadir_arg_def
      init_file_def path_join_def path_join2_def chain_name_def demo_env_def demo_node_def)

lemma demo_args_running [simp]:
  "init_args env demo_running = init_args env demo_node"
  "node_args demo_running = node_args demo_node"
  "ipc_path demo_running = ipc_path demo_node"
  by (simp_all add: init_args_def node_args_def ipc_path_def geth_datadir_def datadir_arg_def
      demo_running_def)

lemma demo_env_simps [simp]:
  "popen demo_env args = Inr (length args)"
  "wait_child demo_env p = Inr 0"
  "terminate_child demo_env p = None"
  "is_connected demo_env ipc k = (2 \<le> k)"
  "get_block_hash demo_env ipc n = Inr rinkeby_hash"
  "this_dir demo_env = ''/opt/golem/ethereum''"
  by (simp_all add: demo_env_def)

lemma geneses_get_known:
  "geneses_get rinkeby_hash = ''rinkeby''"
  "geneses_get ropsten_hash = ''ropsten''"
  by (simp_all add: geneses_get_def GENESES_def rinkeby_hash_def ropsten_hash_def)

lemma start_demo:
  "start demo_env demo_node =
     Some (None, demo_running,
       [EvPopen (init_args demo_env demo_node) 4, EvWait 4, EvPopen (node_args demo_node) 9, EvAtexit])"
proof -
  have "ps demo_node = None" by (simp add: demo_node_def)
  moreover have "popen demo_env (init_args demo_env demo_node) = Inr 4"
    by (simp add: demo_args)
  moreover have "popen demo_env (node_args demo_node) = Inr 9"
    by (simp add: demo_args)
  moreover have "is_connected demo_env (ipc_path demo_node) 2" by simp
  moreover have "is_ascii rinkeby_hash" by (simp add: is_ascii_def rinkeby_hash_def)
  ultimately show ?thesis
    using start_identified [of demo_node demo_env 4 9 2 rinkeby_hash]
    by (simp add: geneses_get_known chain_name_def demo_running_def demo_args)
qed

subsection \<open>start and stop\<close>

text \<open>
  Claim C2. On a supervisor that is running, \<^verbatim>\<open>start()\<close> raises \<^verbatim>\<open>RuntimeError\<close> (the
  specification's LifecycleError) with the message ``Ethereum node already started by us'',
  causes no event at all (so no second process is spawned), and leaves the object as it
  was, hence still running.
\<close>

theorem start_twice_fails:
  assumes "is_running self"
  shows "start env self =
      Some (Some (Exc RuntimeError ''Ethereum node already started by us''), self, [])
    \<and> is_running (fst (snd (the (start env self))))"
  using assms by (simp add: start_def is_running_def already_started_error_def)

theorem start_twice_fails_witness:
  "start demo_env (fst (snd (the (start demo_env demo_node)))) =
      Some (Some (Exc RuntimeError ''Ethereum node already started by us''), demo_running, [])
    \<and> is_running demo_running"
proof -
  have r: "is_running demo_running" by (simp add: is_running_def demo_running_def)
  from start_twice_fails [OF r, of demo_env] r show ?thesis
    by (simp add: start_demo)
qed

text \<open>
  Claim C3. When the node has been spawned and has become reachable, and the chain
  identified from its genesis hash (a text of ASCII characters, as every hex text is) is
  not the expected one, \<^verbatim>\<open>start()\<close> raises \<^verbatim>\<open>OSError\<close> (the specification's
  ConfigurationError) with the message ``Wrong '<chain>' Ethereum chain''; the object
  keeps the child, and the trace holds no request to terminate it.
\<close>

theorem wrong_chain_left_running:
  assumes "\<not> is_running self"
    and "popen env (init_args env self) = Inr ip"
    and "wait_child env ip = Inr 0"
    and "popen env (node_args self) = Inr p"
    and "is_connected env (ipc_path self) k"
    and "get_block_hash env (ipc_path self) 0 = Inr h"
    and "is_ascii h"
    and "geneses_get h \<noteq> ''rinkeby''"
  shows "start env self =
      Some (Some (Exc OSError (''Wrong '' @ [CHR 0x27] @ geneses_get h @ [CHR 0x27] @ '' Ethereum chain'')),
            self\<lparr>ps := Some p, web3 := Some (ipc_path self)\<rparr>,
            [EvPopen (init_args env self) ip, EvWait ip, EvPopen (node_args self) p, EvAtexit])
    \<and> \<not> terminated_child (snd (snd (the (start env self))))
    \<and> live_children (snd (snd (the (start env self)))) = [p]"
proof -
  from assms(1) have "ps self = None" by (simp add: is_running_def)
  from start_identified [OF this assms(2-7)] assms(8) show ?thesis
    by (simp add: chain_name_def wrong_chain_error_def terminated_child_def live_children_def
        live_step_def)
qed

theorem wrong_chain_left_running_witness:
  "start ropsten_env demo_node =
      Some (Some (Exc OSError ''Wrong 'ropsten' Ethereum chain''), demo_running,
            [EvPopen (init_args demo_env demo_node) 4, EvWait 4,
             EvPopen (node_args demo_node) 9, EvAtexit])
   \<and> ps demo_running = Some 9"
proof -
  have e: "init_args ropsten_env demo_node = init_args demo_env demo_node"
    by (simp add: init_args_def init_file_def ropsten_env_def)
  have "\<not> is_running demo_node" by (simp add: is_running_def demo_node_def)
  moreover have "popen ropsten_env (init_args ropsten_env demo_node) = Inr 4"
    unfolding e by (simp add: demo_args ropsten_env_def)
  moreover have "wait_child ropsten_env 4 = Inr 0" by (simp add: ropsten_env_def)
  moreover have "popen ropsten_env (node_args demo_node) = Inr 9"
    by (simp add: demo_args ropsten_env_def)
  moreover have "is_connected ropsten_env (ipc_path demo_node) 2" by (simp add: ropsten_env_def)
  moreover have "get_block_hash ropsten_env (ipc_path demo_node) 0 = Inr ropsten_hash"
    by (simp add: ropsten_env_def)
  moreover have "is_ascii ropsten_hash" by (simp add: is_ascii_def ropsten_hash_def)
  moreover have "geneses_get ropsten_hash \<noteq> ''rinkeby''" by (simp add: geneses_get_known)
  ultimately show ?thesis
    using wrong_chain_left_running [of demo_node ropsten_env 4 9 2 ropsten_hash]
    by (simp add: e geneses_get_known demo_running_def demo_args)
qed

text \<open>
  Every exception that \<^verbatim>\<open>terminate()\<close> or \<^verbatim>\<open>wait()\<close> raises inside the \<^verbatim>\<open>try\<close>
  block of \<^verbatim>\<open>stop()\<close> leaves the method as an \<^verbatim>\<open>AttributeError\<close>: the handler's
  class does not exist, so nothing is caught.
\<close>

lemma stop_handler_raises:
  "stop_handler e =
     Some (Exc AttributeError
       (CHR 0x27 # ''module' object has no attribute 'NoSuchProcess'' @ [CHR 0x27]))"
  by (simp add: stop_handler_def subprocess_getattr_def subprocess_exceptions_def)

lemma stop_terminate_raises:
  assumes "ps self = Some p" and "terminate_child env p = Some e"
  shows "stop env self =
     (Some (Exc AttributeError
        (CHR 0x27 # ''module' object has no attribute 'NoSuchProcess'' @ [CHR 0x27])),
      self, [EvTerminate p])"
  using assms by (simp add: stop_def stop_handler_raises)

lemma stop_returns:
  assumes "ps self = Some p" and "terminate_child env p = None" and "wait_child env p = Inr rc"
  shows "stop env self = (None, self\<lparr>ps := None\<rparr>, [EvTerminate p, EvWait p])"
  using assms by (simp add: stop_def)

lemma stop_normal_return:
  assumes "stop env self = (None, self', tr)"
  shows "\<not> is_running self'" and "datadir self' = datadir self" and "prog self' = prog self"
  using assms
  by (auto simp add: stop_def is_running_def stop_handler_raises split: option.splits sum.splits)

text \<open>
  Claim C4, at an input where it fails. The child of a running supervisor is already gone,
  and \<^verbatim>\<open>terminate()\<close> raises \<^verbatim>\<open>OSError\<close> (``No such process''). The source means to
  swallow this (its handler logs ``process no longer exists'' and the handle is cleared
  after the \<^verbatim>\<open>try\<close> statement), but \<^verbatim>\<open>stop()\<close> raises \<^verbatim>\<open>AttributeError\<close> instead,
  does not clear the handle, and the supervisor still reports that it is running.
\<close>

theorem stop_process_gone_raises:
  "stop gone_env demo_running =
     (Some (Exc AttributeError
        (CHR 0x27 # ''module' object has no attribute 'NoSuchProcess'' @ [CHR 0x27])),
      demo_running, [EvTerminate 9])
   \<and> is_running (fst (snd (stop gone_env demo_running)))"
proof -
  have "ps demo_running = Some 9" by (simp add: demo_running_def)
  moreover have "terminate_child gone_env 9 = Some (Exc OSError ''[Errno 3] No such process'')"
    by (simp add: gone_env_def)
  ultimately show ?thesis
    using stop_terminate_raises [of demo_running 9 gone_env]
    by (simp add: is_running_def)
qed

text \<open>
  Claim C5. The lifecycle is reusable. After a \<^verbatim>\<open>start()\<close> that returned and a
  \<^verbatim>\<open>stop()\<close> that returned, the supervisor is not running; a further \<^verbatim>\<open>start()\<close> is
  not refused and, when the chain initialisation exits with 0, the node is spawned, becomes
  reachable and is on the rinkeby chain, it returns normally with the supervisor running
  again. And \<^verbatim>\<open>stop()\<close> on a supervisor that is not running does nothing: no
  exception, the same object, no event.
\<close>

theorem lifecycle_reusable:
  assumes "start env1 self0 = Some (None, self1, tr1)"
    and "stop env2 self1 = (None, self2, tr2)"
    and "popen env3 (init_args env3 self2) = Inr ip"
    and "wait_child env3 ip = Inr 0"
    and "popen env3 (node_args self2) = Inr p"
    and "is_connected env3 (ipc_path self2) k"
    and "get_block_hash env3 (ipc_path self2) 0 = Inr h"
    and "geneses_get h = ''rinkeby''"
    and "\<not> is_running idle"
  shows "\<not> is_running self2
    \<and> (\<exists>self3 tr3. start env3 self2 = Some (None, self3, tr3) \<and> is_running self3)
    \<and> stop env idle = (None, idle, [])"
proof -
  from stop_normal_return(1) [OF assms(2)] have idle2: "\<not> is_running self2" .
  then have "ps self2 = None" by (simp add: is_running_def)
  from start_identified [OF this assms(3-7) geneses_get_rinkeby [OF assms(8)]] assms(8)
  have "start env3 self2 =
    Some (None, self2\<lparr>ps := Some p, web3 := Some (ipc_path self2)\<rparr>,
      [EvPopen (init_args env3 self2) ip, EvWait ip, EvPopen (node_args self2) p, EvAtexit])"
    by (simp add: chain_name_def)
  moreover have "is_running (self2\<lparr>ps := Some p, web3 := Some (ipc_path self2)\<rparr>)"
    by (simp add: is_running_def)
  moreover from assms(9) have "stop env idle = (None, idle, [])"
    by (simp add: stop_def is_running_def)
  ultimately show ?thesis using idle2 by blast
qed

lemma stop_demo:
  "stop demo_env demo_running = (None, demo_node\<lparr>web3 := Some ''/tmp/d/ethereum/rinkeby/geth.ipc''\<rparr>, [EvTerminate 9, EvWait 9])"
  by (simp add: stop_def demo_running_def demo_node_def)

theorem lifecycle_reusable_witness:
  "\<not> is_running (fst (snd (stop demo_env (fst (snd (the (start demo_env demo_node)))))))
   \<and> (\<exists>self3 tr3.
        start demo_env (fst (snd (stop demo_env (fst (snd (the (start demo_env demo_node)))))))
          = Some (None, self3, tr3) \<and> is_running self3)
   \<and> stop demo_env demo_node = (None, demo_node, [])"
proof -
  let ?s2 = "demo_node\<lparr>web3 := Some ''/tmp/d/ethereum/rinkeby/geth.ipc''\<rparr>"
  have a: "init_args demo_env ?s2 = init_args demo_env demo_node"
    "node_args ?s2 = node_args demo_node" "ipc_path ?s2 = ipc_path demo_node"
    by (simp_all add: init_args_def node_args_def ipc_path_def geth_datadir_def datadir_arg_def)
  have 3: "popen demo_env (init_args demo_env ?s2) = Inr 4" by (simp add: a demo_args)
  have 4: "wait_child demo_env 4 = Inr 0" by simp
  have 5: "popen demo_env (node_args ?s2) = Inr 9" by (simp add: a demo_args)
  have 6: "is_connected demo_env (ipc_path ?s2) 2" by simp
  have 7: "get_block_hash demo_env (ipc_path ?s2) 0 = Inr rinkeby_hash" by simp
  have 8: "geneses_get rinkeby_hash = ''rinkeby''" by (simp add: geneses_get_known)
  have 9: "\<not> is_running demo_node" by (simp add: is_running_def demo_node_def)
  from lifecycle_reusable [OF start_demo stop_demo 3 4 5 6 7 8 9, of demo_env]
  show ?thesis by (simp add: start_demo stop_demo)
qed

lemma init_args_not_node_args: "init_args env self \<noteq> node_args self'"
  by (simp add: init_args_def node_args_def)

text \<open>
  Claim C6. A \<^verbatim>\<open>start()\<close> that fails at the check of the running state, or because the
  chain initialisation exits with a code other than 0, raises and leaves the object as it
  was (so \<^verbatim>\<open>is_running()\<close> answers as before). The data directory is computed by
  \<^verbatim>\<open>path.join\<close> and string formatting, which do not fail. The trace does not hold the
  spawn of the node, and the only child it can hold, the initialisation, has been waited
  for.
\<close>

theorem start_early_failure_unchanged:
  assumes "is_running self
      \<or> (popen env (init_args env self) = Inr ip \<and> wait_child env ip = Inr rc \<and> rc \<noteq> 0)"
  shows "\<exists>e tr. start env self = Some (Some e, self, tr)
      \<and> e = (if is_running self then Exc RuntimeError ''Ethereum node already started by us''
             else Exc OSError (''geth init failed with code '' @ string_of_int rc))
      \<and> \<not> spawned_node self tr \<and> live_children tr = []
      \<and> is_running (fst (snd (the (start env self)))) = is_running self"
proof (cases "is_running self")
  case True
  then show ?thesis
    by (simp add: start_def is_running_def already_started_error_def spawned_node_def
        live_children_def)
next
  case False
  with assms have "popen env (init_args env self) = Inr ip" "wait_child env ip = Inr rc" "rc \<noteq> 0"
    by simp_all
  with False show ?thesis
    by (simp add: start_def is_running_def init_failed_error_def spawned_node_def
        is_node_spawn_def init_args_not_node_args live_children_def live_step_def)
qed

theorem start_early_failure_unchanged_witness:
  "start init_fails_env demo_node =
     Some (Some (Exc OSError ''geth init failed with code 1''), demo_node,
           [EvPopen (init_args demo_env demo_node) 4, EvWait 4])
   \<and> \<not> is_running demo_node"
proof -
  have e: "init_args init_fails_env demo_node = init_args demo_env demo_node"
    by (simp add: init_args_def init_file_def init_fails_env_def)
  have n: "\<not> is_running demo_node" by (simp add: is_running_def demo_node_def)
  have p: "popen init_fails_env (init_args init_fails_env demo_node) = Inr 4"
    unfolding e by (simp add: demo_args init_fails_env_def)
  have w: "wait_child init_fails_env 4 = Inr 1" by (simp add: init_fails_env_def)
  have s: "string_of_int 1 = ''1''" by code_simp
  have "is_running demo_node
      \<or> (popen init_fails_env (init_args init_fails_env demo_node) = Inr 4
          \<and> wait_child init_fails_env 4 = Inr 1 \<and> (1::int) \<noteq> 0)"
    using p w by simp
  from start_early_failure_unchanged [OF this] n s
  have "\<exists>tr. start init_fails_env demo_node =
      Some (Some (Exc OSError ''geth init failed with code 1''), demo_node, tr)"
    by auto
  moreover have "start init_fails_env demo_node =
      Some (fst (the (start init_fails_env demo_node)), fst (snd (the (start init_fails_env demo_node))),
            [EvPopen (init_args demo_env demo_node) 4, EvWait 4])"
    using p w n by (simp add: start_def is_running_def e)
  ultimately show ?thesis using n by auto
qed

text \<open>
  Claim C10. Whenever \<^verbatim>\<open>start()\<close>, called on a supervisor that was not running,
  returns or raises with the spawn of the node in its trace, the supervisor answers
  \<^verbatim>\<open>is_running() == True\<close> afterwards; this holds for the raise at the check of the
  chain and for an exception of the query of the genesis block alike.
\<close>

theorem running_after_spawn:
  assumes "start env self = Some (r, self', tr)"
    and "\<not> is_running self"
    and "spawned_node self tr"
  shows "is_running self'"
proof -
  from assms(2) have n: "ps self = None" by (simp add: is_running_def)
  have after: "is_running s'" if "start_spawned env (self\<lparr>ps := Some p\<rparr>) t = Some (r, s', tr)"
    for p t s'
    using that
    by (auto simp add: start_spawned_def is_running_def Let_def
        split: option.splits sum.splits if_splits)
  from assms(1,3) n show ?thesis
    by (auto simp add: start_def spawned_node_def is_node_spawn_def init_args_not_node_args
        split: sum.splits if_splits dest: after)
qed

theorem running_after_spawn_witness:
  "start ropsten_env demo_node =
     Some (Some (Exc OSError ''Wrong 'ropsten' Ethereum chain''), demo_running,
           [EvPopen (init_args demo_env demo_node) 4, EvWait 4,
            EvPopen (node_args demo_node) 9, EvAtexit])
   \<and> is_running demo_running"
proof -
  have e: "init_args ropsten_env demo_node = init_args demo_env demo_node"
    by (simp add: init_args_def init_file_def ropsten_env_def)
  have n: "ps demo_node = None" by (simp add: demo_node_def)
  have 1: "popen ropsten_env (init_args ropsten_env demo_node) = Inr 4"
    unfolding e by (simp add: demo_args ropsten_env_def)
  have 2: "wait_child ropsten_env 4 = Inr 0" by (simp add: ropsten_env_def)
  have 3: "popen ropsten_env (node_args demo_node) = Inr 9"
    by (simp add: demo_args ropsten_env_def)
  have 4: "is_connected ropsten_env (ipc_path demo_node) 2" by (simp add: ropsten_env_def)
  have 5: "get_block_hash ropsten_env (ipc_path demo_node) 0 = Inr ropsten_hash"
    by (simp add: ropsten_env_def)
  have 6: "is_ascii ropsten_hash" by (simp add: is_ascii_def ropsten_hash_def)
  have s: "start ropsten_env demo_node =
     Some (Some (Exc OSError ''Wrong 'ropsten' Ethereum chain''), demo_running,
           [EvPopen (init_args demo_env demo_node) 4, EvWait 4,
            EvPopen (node_args demo_node) 9, EvAtexit])"
    using start_identified [OF n 1 2 3 4 5 6]
    by (simp add: e geneses_get_known chain_name_def wrong_chain_error_def
        demo_running_def demo_args)
  have i: "\<not> is_running demo_node" using n by (simp add: is_running_def)
  have sp: "spawned_node demo_node
      [EvPopen (init_args demo_env demo_node) 4, EvWait 4, EvPopen (node_args demo_node) 9, EvAtexit]"
    by (simp add: spawned_node_def is_node_spawn_def)
  from running_after_spawn [OF s i sp] s show ?thesis by simp
qed

subsection \<open>Chain identification\<close>

lemma GENESES_distinct: "distinct (map fst GENESES)"
  by (simp add: GENESES_def)

text \<open>
  Claim C7, as the source has it. \<^verbatim>\<open>identify_chain\<close> fetches the hash of block zero and
  looks it up in the table by equality of the key, with no normalization. A hash is a text
  of ASCII characters (every hex text is, see \<open>is_ascii_hex\<close>): a hash that is a key of
  the table gives that entry's name, every other hash gives ``unknown'', and neither
  raises.
\<close>

theorem identify_chain_exact:
  assumes "web3 self = Some ipc" and "get_block_hash env ipc 0 = Inr genesis"
    and "is_ascii genesis"
  shows "(\<forall>c. (genesis, c) \<in> set GENESES \<longrightarrow> identify_chain env self = Inr c)
    \<and> (genesis \<notin> fst ` set GENESES \<longrightarrow> identify_chain env self = Inr ''unknown'')"
proof -
  have "identify_chain env self = Inr c" if "(genesis, c) \<in> set GENESES" for c
    using identify_chain_ascii [OF assms] map_of_is_SomeI [OF GENESES_distinct that]
    by (simp add: geneses_get_def)
  moreover have "identify_chain env self = Inr ''unknown''" if "genesis \<notin> fst ` set GENESES"
    using identify_chain_ascii [OF assms] that
    by (simp add: geneses_get_def map_of_eq_None_iff [THEN iffD2])
  ultimately show ?thesis by blast
qed

theorem identify_chain_exact_witness:
  "identify_chain demo_env demo_running = Inr ''rinkeby''
   \<and> identify_chain upper_env demo_running = Inr ''unknown''"
proof -
  have w: "web3 demo_running = Some ''/tmp/d/ethereum/rinkeby/geth.ipc''"
    by (simp add: demo_running_def)
  have h1: "get_block_hash demo_env ''/tmp/d/ethereum/rinkeby/geth.ipc'' 0 = Inr rinkeby_hash"
    by simp
  have h2: "get_block_hash upper_env ''/tmp/d/ethereum/rinkeby/geth.ipc'' 0 = Inr rinkeby_hash_upper"
    by (simp add: upper_env_def)
  have a1: "is_ascii rinkeby_hash" by (simp add: is_ascii_def rinkeby_hash_def)
  have a2: "is_ascii rinkeby_hash_upper" by (simp add: is_ascii_def rinkeby_hash_upper_def)
  have m1: "(rinkeby_hash, ''rinkeby'') \<in> set GENESES"
    by (simp add: GENESES_def rinkeby_hash_def)
  have m2: "rinkeby_hash_upper \<notin> fst ` set GENESES"
    by (simp add: GENESES_def rinkeby_hash_upper_def)
  from identify_chain_exact [OF w h1 a1] identify_chain_exact [OF w h2 a2] m1 m2
  show ?thesis by blast
qed

text \<open>
  Claim C7, as the specification words it, fails: the rinkeby genesis hash written with
  upper-case hex digits is the rinkeby entry under a case-normalized comparison, and the
  source answers ``unknown'' for it. The statement above is about texts of ASCII
  characters because of the method's log line: for a text that is not ASCII the method
  raises \<^verbatim>\<open>UnicodeEncodeError\<close>.
\<close>

theorem identify_chain_not_normalized:
  "spec_geneses_get rinkeby_hash_upper = ''rinkeby''
   \<and> identify_chain upper_env demo_running = Inr ''unknown''
   \<and> identify_chain accent_env demo_running
     = Inl (Exc UnicodeEncodeError ''ascii codec cannot encode character'')"
proof -
  have "spec_geneses_get rinkeby_hash_upper = ''rinkeby''"
    by code_simp
  moreover have "identify_chain upper_env demo_running = Inr ''unknown''"
    by (simp add: identify_chain_def demo_running_def upper_env_def geneses_get_def GENESES_def
        rinkeby_hash_upper_def py_format_error_def is_ascii_def)
  moreover have "identify_chain accent_env demo_running
      = Inl (Exc UnicodeEncodeError ''ascii codec cannot encode character'')"
    by (simp add: identify_chain_def demo_running_def accent_env_def py_format_error_def
        is_ascii_def)
  ultimately show ?thesis by simp
qed

subsection \<open>Hex text\<close>

lemma hex_value_digit: "d < 16 \<Longrightarrow> hex_value (hex_digit d) = Some d"
proof -
  have "\<forall>d \<in> set [0..<16]. hex_value (hex_digit d) = Some d"
    by code_simp
  then show "d < 16 \<Longrightarrow> hex_value (hex_digit d) = Some d" by simp
qed

lemma decode_pairs_byte:
  "decode_pairs (hex_of_byte c @ r) =
     (case decode_pairs r of Inl e \<Rightarrow> Inl e | Inr bs \<Rightarrow> Inr (c # bs))"
proof -
  have "n div 16 < 16" if "n < 256" for n :: nat
    using that by arith
  from this [of "of_char c"]
  have d: "(of_char c :: nat) div 16 < 16" "(of_char c :: nat) mod 16 < 16" by simp_all
  have "char_of (16 * ((of_char c :: nat) div 16) + (of_char c :: nat) mod 16) = c" by simp
  with d show ?thesis
    by (simp add: hex_of_byte_def hex_value_digit split: sum.splits)
qed

lemma decode_pairs_encode: "decode_pairs (encode_hex bs) = Inr bs"
  by (induction bs) (simp_all add: encode_hex_def decode_pairs_byte)

lemma length_encode_hex: "length (encode_hex bs) = 2 * length bs"
  by (induction bs) (simp_all add: encode_hex_def hex_of_byte_def)

lemma is_ascii_hex_digit: "d < 16 \<Longrightarrow> (of_char (hex_digit d) :: nat) < 128"
proof -
  have "\<forall>d \<in> set [0..<16]. (of_char (hex_digit d) :: nat) < 128"
    by code_simp
  then show "d < 16 \<Longrightarrow> (of_char (hex_digit d) :: nat) < 128" by simp
qed

text \<open>A hex text, with its prefix \<^verbatim>\<open>0x\<close>, has ASCII characters only.\<close>

lemma is_ascii_hex: "is_ascii (''0x'' @ encode_hex bs)"
proof -
  have d: "(of_char c :: nat) div 16 < 16" for c
  proof -
    have "n div 16 < 16" if "n < 256" for n :: nat
      using that by arith
    from this [of "of_char c"] show ?thesis by simp
  qed
  have "list_all (\<lambda>c. (of_char c :: nat) < 128) (encode_hex bs)"
    by (induction bs) (simp_all add: encode_hex_def hex_of_byte_def is_ascii_hex_digit d)
  then show ?thesis by (simp add: is_ascii_def)
qed

text \<open>Decoding the hex text of a byte string gives the byte string back.\<close>

lemma decode_hex_encode_hex: "decode_hex (encode_hex bs) = Inr bs"
  by (simp add: decode_hex_def length_encode_hex decode_pairs_encode)

subsection \<open>The remote faucet\<close>

lemma faucet_answer_no_request: "filter is_http_get (snd (faucet_answer env body)) = []"
  by (simp add: faucet_answer_def is_http_get_def split: sum.splits option.splits)

text \<open>
  Claim C8, as the source has it. For an address that normalizes,
  \<^verbatim>\<open>ropsten_faucet_donate\<close> makes exactly one outbound request, to the URL that ends in
  the hex text of the normalized address. When the request gets a response, the call
  returns \<^verbatim>\<open>False\<close> for every status other than 200. For status 200 it returns
  \<^verbatim>\<open>False\<close>, with the server's message in a warning record, when the body has
  \<^verbatim>\<open>paydate == 0\<close> and a message that formats as ASCII; and it returns \<^verbatim>\<open>True\<close> when
  the body has a paydate other than 0 that \<^verbatim>\<open>datetime.fromtimestamp\<close> accepts and an
  amount that \<^verbatim>\<open>int()\<close> accepts and whose quotient by \<^verbatim>\<open>denoms.ether\<close> is a float.
\<close>

theorem remote_faucet_outcomes:
  assumes "normalize_address env addr = Inr a"
  shows "filter is_http_get (snd (ropsten_faucet_donate env addr)) =
        [EvHttpGet (''http://188.165.227.180:4000/donate/'' @ encode_hex a)]
    \<and> (http_get env (''http://188.165.227.180:4000/donate/'' @ encode_hex a) = Inr response
         \<and> status_code response \<noteq> 200
       \<longrightarrow> fst (ropsten_faucet_donate env addr) = Inr False)
    \<and> (http_get env (''http://188.165.227.180:4000/donate/'' @ encode_hex a) = Inr response
         \<and> status_code response = 200 \<and> json_body response = Inr body
         \<and> py_getitem body ''paydate'' = Inr paydate \<and> py_eq_zero paydate
         \<and> py_getitem body ''message'' = Inr message \<and> py_format_error message = None
       \<longrightarrow> fst (ropsten_faucet_donate env addr) = Inr False
         \<and> EvLog ''warning'' ''Ropsten Faucet warning {}'' [message]
             \<in> set (snd (ropsten_faucet_donate env addr)))
    \<and> (http_get env (''http://188.165.227.180:4000/donate/'' @ encode_hex a) = Inr response
         \<and> status_code response = 200 \<and> json_body response = Inr body
         \<and> py_getitem body ''paydate'' = Inr paydate \<and> \<not> py_eq_zero paydate
         \<and> fromtimestamp env paydate = Inr ts
         \<and> py_getitem body ''amount'' = Inr amount \<and> py_int env amount = Inr n
         \<and> \<not> true_div_overflows n ether
       \<longrightarrow> fst (ropsten_faucet_donate env addr) = Inr True)"
proof -
  let ?url = "''http://188.165.227.180:4000/donate/'' @ encode_hex a"
  have url: "URL_TEMPLATE @ encode_hex a = ?url" by (simp add: URL_TEMPLATE_def)
  have one: "filter is_http_get (snd (ropsten_faucet_donate env addr)) = [EvHttpGet ?url]"
    using assms
    by (simp add: ropsten_faucet_donate_def faucet_answer_no_request url split: sum.splits)
      (simp add: is_http_get_def)
  have err: "fst (ropsten_faucet_donate env addr) = Inr False"
    if "http_get env ?url = Inr response" "status_code response \<noteq> 200"
    using assms that by (simp add: ropsten_faucet_donate_def url)
  have body: "ropsten_faucet_donate env addr =
      (fst (faucet_answer env body), EvHttpGet ?url # snd (faucet_answer env body))"
    if "http_get env ?url = Inr response" "status_code response = 200"
      "json_body response = Inr body"
    using assms that by (simp add: ropsten_faucet_donate_def url)
  have decline: "fst (ropsten_faucet_donate env addr) = Inr False
      \<and> EvLog ''warning'' ''Ropsten Faucet warning {}'' [message]
          \<in> set (snd (ropsten_faucet_donate env addr))"
    if "http_get env ?url = Inr response" "status_code response = 200"
      "json_body response = Inr body"
      "py_getitem body ''paydate'' = Inr paydate" "py_eq_zero paydate"
      "py_getitem body ''message'' = Inr message" "py_format_error message = None"
    using body [OF that(1-3)] that(4-7) by (simp add: faucet_answer_def)
  have paid: "fst (ropsten_faucet_donate env addr) = Inr True"
    if "http_get env ?url = Inr response" "status_code response = 200"
      "json_body response = Inr body"
      "py_getitem body ''paydate'' = Inr paydate" "\<not> py_eq_zero paydate"
      "fromtimestamp env paydate = Inr ts"
      "py_getitem body ''amount'' = Inr amount" "py_int env amount = Inr n"
      "\<not> true_div_overflows n ether"
    using body [OF that(1-3)] that(4-9) by (simp add: faucet_answer_def)
  from one err decline paid show ?thesis by blast
qed

lemma http_env_simps [simp]:
  "normalize_address (http_env response) demo_addr = Inr demo_addr"
  "http_get (http_env response) url = Inr response"
  "timestamp_ok (http_env response) 1486605259"
  by (simp_all add: http_env_def demo_addr_def)

theorem remote_faucet_outcomes_witness:
  "fst (ropsten_faucet_donate (http_env error_response) demo_addr) = Inr False
   \<and> fst (ropsten_faucet_donate (http_env decline_response) demo_addr) = Inr False
   \<and> EvLog ''warning'' ''Ropsten Faucet warning {}'' [JStr ''Ooops!'']
        \<in> set (snd (ropsten_faucet_donate (http_env decline_response) demo_addr))
   \<and> fst (ropsten_faucet_donate (http_env paid_response) demo_addr) = Inr True
   \<and> filter is_http_get (snd (ropsten_faucet_donate (http_env paid_response) demo_addr)) =
        [EvHttpGet (''http://188.165.227.180:4000/donate/'' @ encode_hex demo_addr)]"
proof -
  have e: "status_code error_response \<noteq> 200" by (simp add: error_response_def)
  have d: "status_code decline_response = 200"
    "json_body decline_response = Inr (JObj [(''paydate'', JInt 0), (''message'', JStr ''Ooops!'')])"
    "py_getitem (JObj [(''paydate'', JInt 0), (''message'', JStr ''Ooops!'')]) ''paydate'' = Inr (JInt 0)"
    "py_eq_zero (JInt 0)"
    "py_getitem (JObj [(''paydate'', JInt 0), (''message'', JStr ''Ooops!'')]) ''message''
       = Inr (JStr ''Ooops!'')"
    "py_format_error (JStr ''Ooops!'') = None"
    by (simp_all add: decline_response_def py_getitem_def py_eq_zero_def py_format_error_def
        is_ascii_def)
  have p: "status_code paid_response = 200"
    "json_body paid_response
       = Inr (JObj [(''paydate'', JInt 1486605259), (''amount'', JInt 999999999999999)])"
    "py_getitem (JObj [(''paydate'', JInt 1486605259), (''amount'', JInt 999999999999999)]) ''paydate''
       = Inr (JInt 1486605259)"
    "\<not> py_eq_zero (JInt 1486605259)"
    "fromtimestamp (http_env paid_response) (JInt 1486605259) = Inr 1486605259"
    "py_getitem (JObj [(''paydate'', JInt 1486605259), (''amount'', JInt 999999999999999)]) ''amount''
       = Inr (JInt 999999999999999)"
    "py_int (http_env paid_response) (JInt 999999999999999) = Inr 999999999999999"
    "\<not> true_div_overflows 999999999999999 ether"
    by (simp_all add: paid_response_def py_getitem_def py_eq_zero_def fromtimestamp_def
        py_int_def true_div_overflows_def ether_def)
  from remote_faucet_outcomes [of "http_env error_response" demo_addr demo_addr error_response] e
  have 1: "fst (ropsten_faucet_donate (http_env error_response) demo_addr) = Inr False"
    by simp
  from remote_faucet_outcomes [of "http_env decline_response" demo_addr demo_addr decline_response
      "JObj [(''paydate'', JInt 0), (''message'', JStr ''Ooops!'')]" "JInt 0" "JStr ''Ooops!''"] d
  have 2: "fst (ropsten_faucet_donate (http_env decline_response) demo_addr) = Inr False
    \<and> EvLog ''warning'' ''Ropsten Faucet warning {}'' [JStr ''Ooops!'']
        \<in> set (snd (ropsten_faucet_donate (http_env decline_response) demo_addr))"
    by simp
  from remote_faucet_outcomes [of "http_env paid_response" demo_addr demo_addr paid_response
      "JObj [(''paydate'', JInt 1486605259), (''amount'', JInt 999999999999999)]"
      "JInt 1486605259" _ 1486605259 "JInt 999999999999999" 999999999999999] p
  have 3: "fst (ropsten_faucet_donate (http_env paid_response) demo_addr) = Inr True
    \<and> filter is_http_get (snd (ropsten_faucet_donate (http_env paid_response) demo_addr)) =
        [EvHttpGet (''http://188.165.227.180:4000/donate/'' @ encode_hex demo_addr)]"
    by simp
  from 1 2 3 show ?thesis by simp
qed

text \<open>
  Claim C8, as the specification words it, fails, once for each condition that the
  statement above adds. An address that does not normalize makes the call raise before any
  request. With status 200: a body with \<^verbatim>\<open>paydate == 0\<close> and no message raises
  \<^verbatim>\<open>KeyError\<close>, and one whose message is not ASCII raises \<^verbatim>\<open>UnicodeEncodeError\<close>,
  where the claim promises \<^verbatim>\<open>False\<close> and no exception for a decline; a body with a
  paydate other than 0 raises \<^verbatim>\<open>ValueError\<close> when the paydate is beyond the year 9999,
  \<^verbatim>\<open>TypeError\<close> when the amount is \<^verbatim>\<open>null\<close>, and \<^verbatim>\<open>OverflowError\<close> when the amount
  is beyond the floats, where the claim promises \<^verbatim>\<open>True\<close>.
\<close>

theorem remote_faucet_raises:
  "ropsten_faucet_donate (http_env paid_response) ''short''
     = (Inl (Exc (LibraryError ''Exception'') ''Invalid address format''), [])
   \<and> fst (ropsten_faucet_donate (http_env bare_decline_response) demo_addr)
     = Inl (Exc KeyError ''message'')
   \<and> fst (ropsten_faucet_donate (http_env unicode_decline_response) demo_addr)
     = Inl (Exc UnicodeEncodeError ''ascii codec cannot encode character'')
   \<and> fst (ropsten_faucet_donate (http_env late_paydate_response) demo_addr)
     = Inl (Exc ValueError ''timestamp out of range'')
   \<and> fst (ropsten_faucet_donate (http_env null_amount_response) demo_addr)
     = Inl (Exc TypeError (''int() argument must be a string or a number, not 'NoneType''
         @ [CHR 0x27]))
   \<and> fst (ropsten_faucet_donate (http_env huge_amount_response) demo_addr)
     = Inl (Exc OverflowError ''integer division result too large for a float'')"
proof -
  have 1: "ropsten_faucet_donate (http_env paid_response) ''short''
      = (Inl (Exc (LibraryError ''Exception'') ''Invalid address format''), [])"
    by (simp add: ropsten_faucet_donate_def http_env_def)
  have 2: "fst (ropsten_faucet_donate (http_env bare_decline_response) demo_addr)
      = Inl (Exc KeyError ''message'')"
    by (simp add: ropsten_faucet_donate_def faucet_answer_def bare_decline_response_def
        py_getitem_def py_eq_zero_def)
  have 3: "fst (ropsten_faucet_donate (http_env unicode_decline_response) demo_addr)
      = Inl (Exc UnicodeEncodeError ''ascii codec cannot encode character'')"
    by (simp add: ropsten_faucet_donate_def faucet_answer_def unicode_decline_response_def
        py_getitem_def py_eq_zero_def py_format_error_def is_ascii_def)
  have 4: "fst (ropsten_faucet_donate (http_env late_paydate_response) demo_addr)
      = Inl (Exc ValueError ''timestamp out of range'')"
    by (simp add: ropsten_faucet_donate_def faucet_answer_def late_paydate_response_def
        py_getitem_def py_eq_zero_def fromtimestamp_def http_env_def demo_addr_def)
  have 5: "fst (ropsten_faucet_donate (http_env null_amount_response) demo_addr)
      = Inl (Exc TypeError (''int() argument must be a string or a number, not 'NoneType''
          @ [CHR 0x27]))"
    by (simp add: ropsten_faucet_donate_def faucet_answer_def null_amount_response_def
        py_getitem_def py_eq_zero_def fromtimestamp_def py_int_def type_name_def)
  have 6: "fst (ropsten_faucet_donate (http_env huge_amount_response) demo_addr)
      = Inl (Exc OverflowError ''integer division result too large for a float'')"
    by (simp add: ropsten_faucet_donate_def faucet_answer_def huge_amount_response_def
        py_getitem_def py_eq_zero_def fromtimestamp_def py_int_def true_div_overflows_def
        ether_def overflow_error_def)
  from 1 2 3 4 5 6 show ?thesis by simp
qed

subsection \<open>The local faucet\<close>

text \<open>
  Claim C9. When the client gives the transaction count, the address normalizes, the
  library accepts and signs the transaction, the client accepts it and answers with a text
  whose characters after the first two are hex digits, \<^verbatim>\<open>gimme_money\<close> has asked the
  client for the count of \<^verbatim>\<open>'0x' + ADDR.encode('hex')\<close>, has sent exactly the
  transaction with that count as nonce, gas price 1, gas limit 21000, the normalized address
  as recipient, the given value and an empty payload, signed with \<^verbatim>\<open>PRIVKEY\<close>, and
  returns the bytes that the answer decodes to (by \<open>decode_hex_encode_hex\<close>, the hash
  itself when the answer is \<^verbatim>\<open>'0x'\<close> and the hex text of the hash).
\<close>

theorem local_faucet_transaction:
  assumes "get_transaction_count ethnode (''0x'' @ encode_hex (ADDR env)) = Inr nonce"
    and "normalize_address env addr = Inr a"
    and "tx_init env \<lparr>tx_nonce = nonce, tx_gasprice = 1, tx_startgas = 21000, tx_to = a,
           tx_value = v, tx_data = [], tx_signed_with = None\<rparr> = None"
    and "tx_sign env \<lparr>tx_nonce = nonce, tx_gasprice = 1, tx_startgas = 21000, tx_to = a,
           tx_value = v, tx_data = [], tx_signed_with = None\<rparr> PRIVKEY = None"
    and "send ethnode \<lparr>tx_nonce = nonce, tx_gasprice = 1, tx_startgas = 21000, tx_to = a,
           tx_value = v, tx_data = [], tx_signed_with = Some PRIVKEY\<rparr> = Inr h"
    and "\<not> true_div_overflows v ether"
    and "is_ascii h"
    and "decode_hex (drop 2 h) = Inr bs"
  shows "gimme_money env ethnode addr v =
    (Inr bs,
     [EvGetTransactionCount (''0x'' @ encode_hex (ADDR env)),
      EvSend \<lparr>tx_nonce = nonce, tx_gasprice = 1, tx_startgas = 21000, tx_to = a,
              tx_value = v, tx_data = [], tx_signed_with = Some PRIVKEY\<rparr>,
      EvLog ''info'' ''Faucet --({} ETH)--> {} ({})''
        [JInt v, JStr (''0x'' @ encode_hex a), JStr h]])"
  using assms by (simp add: gimme_money_def Let_def py_format_error_def)

theorem local_faucet_transaction_witness:
  "gimme_money (http_env paid_response) demo_client demo_addr 1000000000000000000 =
    (Inr demo_hash,
     [EvGetTransactionCount (''0x'' @ encode_hex (take 20 PRIVKEY)),
      EvSend \<lparr>tx_nonce = 7, tx_gasprice = 1, tx_startgas = 21000, tx_to = demo_addr,
              tx_value = 1000000000000000000, tx_data = [], tx_signed_with = Some PRIVKEY\<rparr>,
      EvLog ''info'' ''Faucet --({} ETH)--> {} ({})''
        [JInt 1000000000000000000, JStr (''0x'' @ encode_hex demo_addr), JStr ''0x00ab7fff'']])"
proof -
  have a: "ADDR (http_env paid_response) = take 20 PRIVKEY"
    by (simp add: ADDR_def http_env_def)
  have 1: "get_transaction_count demo_client (''0x'' @ encode_hex (ADDR (http_env paid_response))) = Inr 7"
    by (simp add: demo_client_def)
  have 3: "tx_init (http_env paid_response) tx = None" for tx
    by (simp add: http_env_def)
  have 4: "tx_sign (http_env paid_response) tx k = None" for tx k
    by (simp add: http_env_def)
  have 5: "send demo_client tx = Inr ''0x00ab7fff''" for tx
    by (simp add: demo_client_def)
  have 6: "\<not> true_div_overflows 1000000000000000000 ether"
    by (simp add: true_div_overflows_def ether_def)
  have 7: "is_ascii ''0x00ab7fff''" by (simp add: is_ascii_def)
  have 8: "decode_hex (drop 2 ''0x00ab7fff'') = Inr demo_hash"
    by code_simp
  from local_faucet_transaction [OF 1 http_env_simps(1) 3 4 5 6 7 8]
  show ?thesis by (simp add: a)
qed

end
